theory Spec2Isabelle
  imports Complex_Main "HOL-Library.Word" "HOL-Library.Sublist"
begin

unbundle bit_operations_syntax

section \<open>JavaScript values\<close>

subsection \<open>Numbers\<close>

text \<open>
  A JavaScript number is modelled as an exact real or one of the three non-finite
  values. Rounding of doubles and the sign of zero are not modelled: every finite
  result is the exact real result of the same expression.
\<close>

datatype jsnum = Num real | NaN | PosInf | NegInf

fun js_add :: "jsnum \<Rightarrow> jsnum \<Rightarrow> jsnum" where
  "js_add (Num a) (Num b) = Num (a + b)"
| "js_add NaN _ = NaN"
| "js_add _ NaN = NaN"
| "js_add PosInf NegInf = NaN"
| "js_add NegInf PosInf = NaN"
| "js_add PosInf _ = PosInf"
| "js_add _ PosInf = PosInf"
| "js_add NegInf _ = NegInf"
| "js_add _ NegInf = NegInf"

fun js_neg :: "jsnum \<Rightarrow> jsnum" where
  "js_neg (Num a) = Num (- a)"
| "js_neg NaN = NaN"
| "js_neg PosInf = NegInf"
| "js_neg NegInf = PosInf"

definition js_sub :: "jsnum \<Rightarrow> jsnum \<Rightarrow> jsnum" where
  "js_sub a b = js_add a (js_neg b)"

definition js_inf :: "bool \<Rightarrow> jsnum" where
  "js_inf positive = (if positive then PosInf else NegInf)"

fun js_mul :: "jsnum \<Rightarrow> jsnum \<Rightarrow> jsnum" where
  "js_mul (Num a) (Num b) = Num (a * b)"
| "js_mul NaN _ = NaN"
| "js_mul _ NaN = NaN"
| "js_mul PosInf (Num b) = (if b = 0 then NaN else js_inf (0 < b))"
| "js_mul NegInf (Num b) = (if b = 0 then NaN else js_inf (b < 0))"
| "js_mul (Num a) PosInf = (if a = 0 then NaN else js_inf (0 < a))"
| "js_mul (Num a) NegInf = (if a = 0 then NaN else js_inf (a < 0))"
| "js_mul PosInf PosInf = PosInf"
| "js_mul NegInf NegInf = PosInf"
| "js_mul PosInf NegInf = NegInf"
| "js_mul NegInf PosInf = NegInf"

fun js_div :: "jsnum \<Rightarrow> jsnum \<Rightarrow> jsnum" where
  "js_div (Num a) (Num b) =
     (if b = 0 then (if a = 0 then NaN else js_inf (0 < a)) else Num (a / b))"
| "js_div NaN _ = NaN"
| "js_div _ NaN = NaN"
| "js_div (Num a) _ = Num 0"
| "js_div PosInf (Num b) = js_inf (0 \<le> b)"
| "js_div NegInf (Num b) = js_inf (b < 0)"
| "js_div _ _ = NaN"

text \<open>\<open>a > b\<close>: false as soon as one side is NaN.\<close>

fun js_gt :: "jsnum \<Rightarrow> jsnum \<Rightarrow> bool" where
  "js_gt (Num a) (Num b) = (b < a)"
| "js_gt NaN _ = False"
| "js_gt _ NaN = False"
| "js_gt PosInf PosInf = False"
| "js_gt PosInf _ = True"
| "js_gt NegInf _ = False"
| "js_gt _ NegInf = True"
| "js_gt _ PosInf = False"

text \<open>\<open>Math.min(a, b)\<close> and \<open>Math.sqrt(a)\<close>.\<close>

definition js_min :: "jsnum \<Rightarrow> jsnum \<Rightarrow> jsnum" where
  "js_min a b = (if a = NaN \<or> b = NaN then NaN else if js_gt a b then b else a)"

fun js_sqrt :: "jsnum \<Rightarrow> jsnum" where
  "js_sqrt (Num a) = (if a < 0 then NaN else Num (sqrt a))"
| "js_sqrt PosInf = PosInf"
| "js_sqrt _ = NaN"

subsection \<open>Strings\<close>

text \<open>
  Strings are lists of code units below 256 (\<open>char\<close>). On that range
  \<open>toLowerCase\<close> maps A-Z and the capital letters of Latin-1 (U+00C0 to U+00DE
  without the multiplication sign U+00D7) 32 places up; the white space of
  \<open>trim\<close> and of the pattern \<open>\s\<close> is TAB, LF, VT, FF, CR, SPACE and U+00A0.
\<close>

definition toLowerChar :: "char \<Rightarrow> char" where
  "toLowerChar c =
     (let n = (of_char c :: nat)
      in if (65 \<le> n \<and> n \<le> 90) \<or> (192 \<le> n \<and> n \<le> 222 \<and> n \<noteq> 215)
         then char_of (n + 32) else c)"

definition toLowerCase :: "string \<Rightarrow> string" where
  "toLowerCase s = map toLowerChar s"

fun startsWith :: "string \<Rightarrow> string \<Rightarrow> bool" where
  "startsWith _ [] = True"
| "startsWith [] (p # ps) = False"
| "startsWith (c # cs) (p # ps) = (c = p \<and> startsWith cs ps)"

text \<open>\<open>includes_str s p\<close> is \<open>s.includes(p)\<close>: \<open>p\<close> occurs in \<open>s\<close> as a substring.\<close>

fun includes_str :: "string \<Rightarrow> string \<Rightarrow> bool" where
  "includes_str [] p = (p = [])"
| "includes_str (c # cs) p = (startsWith (c # cs) p \<or> includes_str cs p)"

definition isWhiteSpace :: "char \<Rightarrow> bool" where
  "isWhiteSpace c = ((of_char c :: nat) \<in> {9, 10, 11, 12, 13, 32, 160})"

definition trim :: "string \<Rightarrow> string" where
  "trim s = rev (dropWhile isWhiteSpace (rev (dropWhile isWhiteSpace s)))"

text \<open>\<open>s.split(sep)\<close> for a one-character separator: never the empty list.\<close>

fun split :: "char \<Rightarrow> string \<Rightarrow> string list" where
  "split sep [] = [[]]"
| "split sep (c # cs) =
     (if c = sep then [] # split sep cs
      else (case split sep cs of [] \<Rightarrow> [[c]] | p # ps \<Rightarrow> (c # p) # ps))"

text \<open>\<open>s.split(/\s+/)\<close>: a run of white space is one separator.\<close>

fun splitLoop :: "bool \<Rightarrow> string \<Rightarrow> string list" where
  "splitLoop inSeparator [] = [[]]"
| "splitLoop inSeparator (c # cs) =
     (if isWhiteSpace c then (if inSeparator then splitLoop True cs else [] # splitLoop True cs)
      else (case splitLoop False cs of [] \<Rightarrow> [[c]] | p # ps \<Rightarrow> (c # p) # ps))"

definition splitWhiteSpace :: "string \<Rightarrow> string list" where
  "splitWhiteSpace s = splitLoop False s"

fun join :: "string \<Rightarrow> string list \<Rightarrow> string" where
  "join sep [] = []"
| "join sep [s] = s"
| "join sep (s # t # ts) = s @ sep @ join sep (t # ts)"

text \<open>\<open>s || d\<close> for an optional string: \<open>undefined\<close> and the empty string are falsy.\<close>

definition orString :: "string option \<Rightarrow> string \<Rightarrow> string" where
  "orString s d = (case s of None \<Rightarrow> d | Some v \<Rightarrow> (if v = [] then d else v))"

text \<open>\<open>x || 0\<close> for an optional number.\<close>

definition orZero :: "real option \<Rightarrow> real" where
  "orZero x = (case x of None \<Rightarrow> 0 | Some v \<Rightarrow> v)"

subsection \<open>Arrays\<close>

text \<open>
  \<open>xs.slice(0, n)\<close> for an integer \<open>n\<close>: a negative end counts from the end of
  the array.
\<close>

definition slice0 :: "'a list \<Rightarrow> int \<Rightarrow> 'a list" where
  "slice0 xs n = (if n < 0 then take (nat (int (length xs) + n)) xs else take (nat n) xs)"

text \<open>
  \<open>xs.sort(compare)\<close> is a stable sort. \<open>after x y\<close> stands for
  \<open>compare(x, y) > 0\<close>: \<open>x\<close> has to come after \<open>y\<close>. An element is moved
  behind exactly the elements it has to come after, so elements that compare as equal
  (also when the comparator returns NaN) keep their order. When the comparator is not a
  consistent ordering the language leaves the order to the implementation, and this
  model is one of the admitted results.
\<close>

fun insertBy :: "('a \<Rightarrow> 'a \<Rightarrow> bool) \<Rightarrow> 'a \<Rightarrow> 'a list \<Rightarrow> 'a list" where
  "insertBy after x [] = [x]"
| "insertBy after x (y # ys) = (if after x y then y # insertBy after x ys else x # y # ys)"

definition sortBy :: "('a \<Rightarrow> 'a \<Rightarrow> bool) \<Rightarrow> 'a list \<Rightarrow> 'a list" where
  "sortBy after xs = foldr (insertBy after) xs []"

section \<open>Embeddings\<close>

subsection \<open>The deterministic mock embedding of AlumniMatchingEngine\<close>

text \<open>
  \<open>simpleHash\<close>: \<open>hash = ((hash << 5) - hash) + char; hash = hash & hash\<close> keeps
  \<open>hash\<close> a 32-bit two's complement integer; the result is its absolute value.
\<close>

definition simpleHash :: "string \<Rightarrow> nat" where
  "simpleHash str =
     nat \<bar>sint (foldl (\<lambda>(hash :: 32 word) c. (push_bit 5 hash - hash) + of_nat (of_char c)) 0 str)\<bar>"

definition getMockEmbedding :: "string \<Rightarrow> real list" where
  "getMockEmbedding text =
     (let hash = simpleHash text
      in map (\<lambda>i. real ((hash + i) mod 1000) / 1000 - 0.5) [0..<100])"

subsection \<open>Cosine similarity\<close>

text \<open>
  The loop of the three cosine computations: one pass over both vectors that adds up
  the dot product and the two squared norms.
\<close>

fun cosineLoop :: "real list \<Rightarrow> real list \<Rightarrow> real \<times> real \<times> real \<Rightarrow> real \<times> real \<times> real" where
  "cosineLoop (x # xs) (y # ys) (dotProduct, normA, normB) =
     cosineLoop xs ys (dotProduct + x * y, normA + x * x, normB + y * y)"
| "cosineLoop _ _ acc = acc"

text \<open>\<open>AlumniMatchingEngine.calculateCosineSimilarity\<close>.\<close>

definition calculateCosineSimilarity :: "real list \<Rightarrow> real list \<Rightarrow> jsnum" where
  "calculateCosineSimilarity a b =
     (if length a \<noteq> length b then Num 0
      else (case cosineLoop a b (0, 0, 0) of
              (dotProduct, normA, normB) \<Rightarrow>
                js_div (Num dotProduct) (js_mul (js_sqrt (Num normA)) (js_sqrt (Num normB)))))"

text \<open>\<open>IntelligentMatchingEngine.calculateCosineSimilarity\<close>.\<close>

definition ime_calculateCosineSimilarity :: "real list \<Rightarrow> real list \<Rightarrow> jsnum" where
  "ime_calculateCosineSimilarity vectorA vectorB =
     (if length vectorA \<noteq> length vectorB then Num 0
      else (case cosineLoop vectorA vectorB (0, 0, 0) of
              (dotProduct, normA, normB) \<Rightarrow>
                if normA = 0 \<or> normB = 0 then Num 0
                else js_div (Num dotProduct) (js_mul (js_sqrt (Num normA)) (js_sqrt (Num normB)))))"

text \<open>
  The cosine inside \<open>calculateSemanticSimilarity\<close> of the match route. There is no
  length check: the loop runs over the first vector, and an index past the end of the
  second one reads \<open>undefined\<close>, which turns the dot product and the second
  magnitude into NaN.
\<close>

fun semanticLoop :: "real list \<Rightarrow> real list \<Rightarrow> jsnum \<times> real \<times> jsnum \<Rightarrow> jsnum \<times> real \<times> jsnum" where
  "semanticLoop [] _ acc = acc"
| "semanticLoop (x # xs) [] (dotProduct, magnitude1, magnitude2) =
     semanticLoop xs [] (NaN, magnitude1 + x * x, NaN)"
| "semanticLoop (x # xs) (y # ys) (dotProduct, magnitude1, magnitude2) =
     semanticLoop xs ys
       (js_add dotProduct (Num (x * y)), magnitude1 + x * x, js_add magnitude2 (Num (y * y)))"

definition embeddingCosine :: "real list \<Rightarrow> real list \<Rightarrow> jsnum" where
  "embeddingCosine embedding1 embedding2 =
     (case semanticLoop embedding1 embedding2 (Num 0, 0, Num 0) of
        (dotProduct, m1, m2) \<Rightarrow>
          (let magnitude1 = js_sqrt (Num m1); magnitude2 = js_sqrt m2
           in if magnitude1 = Num 0 \<or> magnitude2 = Num 0 then Num 0
              else js_div dotProduct (js_mul magnitude1 magnitude2)))"

section \<open>Data model\<close>

text \<open>
  Only the fields that the matching code reads are kept. A field declared optional in
  the interfaces (\<open>field?: T\<close>) is an \<open>option\<close>, and \<open>None\<close> is an absent
  property, so \<open>'field' in profile\<close> is \<open>field profile \<noteq> None\<close>.
  \<open>institutionLocation\<close> is \<open>profile.user?.institution?.location\<close>.
\<close>

datatype SkillLevel = Beginner | Intermediate | Advanced | Expert

record Skill =
  name :: string
  level :: SkillLevel

record Profile =
  profileId :: string
  department :: string
  skills :: "Skill list"
  institutionLocation :: "string option"

record AlumniProfile = Profile +
  currentPosition :: "string option"
  industry :: "string option"
  workLocation :: "string option"
  yearsExperience :: "real option"
  isMentor :: bool
  mentorCategories :: "string list"

record StudentProfile = Profile +
  careerInterests :: "string list"
  isSeekingMentorship :: bool

text \<open>The union type \<open>StudentProfile | AlumniProfile\<close> of the seeker.\<close>

datatype Seeker = Student StudentProfile | Alumnus AlumniProfile

definition seekerDepartment :: "Seeker \<Rightarrow> string" where
  "seekerDepartment seeker = (case seeker of Student s \<Rightarrow> department s | Alumnus a \<Rightarrow> department a)"

definition seekerSkills :: "Seeker \<Rightarrow> Skill list" where
  "seekerSkills seeker = (case seeker of Student s \<Rightarrow> skills s | Alumnus a \<Rightarrow> skills a)"

datatype CriterionType = career_similarity | skill_complement | geographic_proximity | mentorship_fit

record MatchCriteria =
  ctype :: CriterionType
  weight :: real

datatype js_error = TypeError

section \<open>AlumniMatchingEngine\<close>

subsection \<open>What the engine takes from outside\<close>

text \<open>
  \<open>demoKey\<close>: the API key in the process environment is \<open>'demo-key'\<close>.
  \<open>embeddingsCreate text\<close>: the vector \<open>response.data[0].embedding\<close> of
  \<open>openai.embeddings.create\<close>, or \<open>None\<close> when the call or the access throws.
  \<open>insightText\<close>: the string that \<open>generateMatchInsights\<close> returns (from the
  chat model, or a random pick among five templates; it catches its own exceptions).
  \<open>numberToString\<close>: the text of a number inside a template string.
  \<open>mathRandom i\<close>: what the call of \<open>Math.random()\<close> for the \<open>i\<close>-th
  fallback match returns.
\<close>

record Environment =
  demoKey :: bool
  embeddingsCreate :: "string \<Rightarrow> real list option"
  insightText :: "Seeker \<Rightarrow> AlumniProfile \<Rightarrow> jsnum \<Rightarrow> string"
  numberToString :: "real \<Rightarrow> string"
  mathRandom :: "nat \<Rightarrow> real"

subsection \<open>Sub-scores\<close>

definition calculateCareerSimilarity :: "Seeker \<Rightarrow> AlumniProfile \<Rightarrow> real" where
  "calculateCareerSimilarity seeker alumni =
     (let score0 = (if seekerDepartment seeker = department alumni then 0.4 else 0);
          score1 =
            (case seeker of
               Student s \<Rightarrow>
                 (let currentRole = (case currentPosition alumni of None \<Rightarrow> [] | Some p \<Rightarrow> toLowerCase p);
                      industry' = (case industry alumni of None \<Rightarrow> [] | Some i \<Rightarrow> toLowerCase i)
                  in foldl (\<lambda>score interest.
                              if includes_str currentRole (toLowerCase interest) \<or>
                                 includes_str industry' (toLowerCase interest)
                              then score + 0.3 else score)
                       score0 (careerInterests s))
             | Alumnus _ \<Rightarrow> score0);
          score2 =
            (case seeker of
               Student _ \<Rightarrow> score1
             | Alumnus a \<Rightarrow>
                 (case yearsExperience a of
                    None \<Rightarrow> score1
                  | Some _ \<Rightarrow>
                      (let expDiff = \<bar>orZero (yearsExperience a) - orZero (yearsExperience alumni)\<bar>
                       in score1 + max 0 (0.3 - expDiff * 0.05))))
      in min score2 1.0)"

text \<open>
  \<open>inferNeededSkills\<close> returns \<open>careerMap[dept] || [...]\<close>. \<open>careerMap\<close> is an
  object literal, so the lookup also finds what it inherits from
  \<open>Object.prototype\<close>. The department is lower-cased first, and the inherited
  properties with a lower-case name are \<open>constructor\<close> (the function \<open>Object\<close>,
  whose \<open>length\<close> is 1) and \<open>__proto__\<close> (the object \<open>Object.prototype\<close>,
  which has no \<open>length\<close>). Both are truthy, so they are returned in place of an array.
\<close>

datatype NeededSkills = SkillArray "string list" | ObjectConstructor | ObjectPrototype

definition inferNeededSkills :: "Seeker \<Rightarrow> NeededSkills" where
  "inferNeededSkills profile =
     (let dept = toLowerCase (seekerDepartment profile)
      in if dept = ''computer science'' then SkillArray [''react'', ''python'', ''aws'', ''docker'', ''kubernetes'']
         else if dept = ''business'' then SkillArray [''excel'', ''powerpoint'', ''sql'', ''tableau'', ''salesforce'']
         else if dept = ''engineering'' then SkillArray [''autocad'', ''matlab'', ''python'', ''project management'']
         else if dept = ''marketing'' then SkillArray [''google analytics'', ''adobe creative suite'', ''social media'', ''seo'']
         else if dept = ''constructor'' then ObjectConstructor
         else if dept = ''__proto__'' then ObjectPrototype
         else SkillArray [''communication'', ''leadership'', ''problem solving''])"

text \<open>
  When \<open>seekerNeeds\<close> is not an array, \<open>seekerNeeds.includes\<close> is not a function:
  the first call of the filter callback throws a TypeError. With no alumni skill the
  callback never runs, and the ratio is \<open>0 / Math.max(seekerNeeds.length, 1)\<close>, which
  is NaN when the length is \<open>undefined\<close>.
\<close>

definition calculateSkillComplement :: "Seeker \<Rightarrow> AlumniProfile \<Rightarrow> js_error + jsnum" where
  "calculateSkillComplement seeker alumni =
     (let seekerSkills' = map (\<lambda>s. toLowerCase (name s)) (seekerSkills seeker);
          alumniSkills = map (\<lambda>s. toLowerCase (name s)) (skills alumni);
          overlap = filter (\<lambda>skill. skill \<in> set alumniSkills) seekerSkills';
          overlapRatio = real (length overlap) / real (max (length seekerSkills') 1)
      in case inferNeededSkills seeker of
           SkillArray seekerNeeds \<Rightarrow>
             (let complement = filter (\<lambda>skill. skill \<in> set seekerNeeds) alumniSkills;
                  complementRatio = real (length complement) / real (max (length seekerNeeds) 1)
              in Inr (Num (overlapRatio * 0.4 + complementRatio * 0.6)))
         | ObjectConstructor \<Rightarrow>
             (if alumniSkills = [] then Inr (Num (overlapRatio * 0.4 + 0 / 1 * 0.6))
              else Inl TypeError)
         | ObjectPrototype \<Rightarrow>
             (if alumniSkills = [] then Inr NaN else Inl TypeError))"

definition extractLocation :: "Seeker \<Rightarrow> string" where
  "extractLocation profile =
     (case profile of
        Alumnus a \<Rightarrow>
          (case workLocation a of
             Some w \<Rightarrow> orString (Some w) []
           | None \<Rightarrow> orString (institutionLocation a) [])
      | Student s \<Rightarrow> orString (institutionLocation s) [])"

definition calculateGeographicProximity :: "Seeker \<Rightarrow> AlumniProfile \<Rightarrow> real" where
  "calculateGeographicProximity seeker alumni =
     (let seekerLocation = extractLocation seeker;
          alumniLocation = orString (workLocation alumni) []
      in if seekerLocation = [] \<or> alumniLocation = [] then 0
         else if toLowerCase seekerLocation = toLowerCase alumniLocation then 1.0
         else
           (let seekerParts = map (\<lambda>p. toLowerCase (trim p)) (split CHR '','' seekerLocation);
                alumniParts = map (\<lambda>p. toLowerCase (trim p)) (split CHR '','' alumniLocation);
                commonParts = filter (\<lambda>part.
                    list_ex (\<lambda>ap. includes_str ap part \<or> includes_str part ap) alumniParts) seekerParts
            in if length commonParts > 0 then 0.7 else 0.0))"

definition calculateMentorshipFit :: "Seeker \<Rightarrow> AlumniProfile \<Rightarrow> real" where
  "calculateMentorshipFit seeker alumni =
     (if \<not> isMentor alumni then 0
      else
        (let score0 = 0.5;
             score1 = (case seeker of
                         Student s \<Rightarrow> (if isSeekingMentorship s then score0 + 0.3 else score0)
                       | Alumnus _ \<Rightarrow> score0);
             seekerExp = (case seeker of
                            Alumnus a \<Rightarrow> orZero (yearsExperience a)
                          | Student _ \<Rightarrow> 0);
             expGap = orZero (yearsExperience alumni) - seekerExp;
             score2 = (if expGap \<ge> 3 \<and> expGap \<le> 15 then score1 + 0.2 else score1);
             score3 =
               (if mentorCategories alumni \<noteq> [] then
                  (let seekerInterests = (case seeker of
                                            Student s \<Rightarrow> careerInterests s
                                          | Alumnus a \<Rightarrow> [department a]);
                       alignment = list_ex (\<lambda>category.
                           list_ex (\<lambda>interest.
                               includes_str (toLowerCase category) (toLowerCase interest) \<or>
                               includes_str (toLowerCase interest) (toLowerCase category))
                             seekerInterests)
                         (mentorCategories alumni)
                   in if alignment then score2 + 0.2 else score2)
                else score2)
         in min score3 1.0))"

subsection \<open>Profile embeddings and their cache\<close>

definition createProfileText :: "Seeker \<Rightarrow> string" where
  "createProfileText profile =
     (let parts = [seekerDepartment profile, join '' '' (map name (seekerSkills profile))];
          parts1 = (case profile of
                      Student s \<Rightarrow> parts @ [join '' '' (careerInterests s)]
                    | Alumnus _ \<Rightarrow> parts);
          parts2 = (case profile of
                      Alumnus a \<Rightarrow>
                        (case currentPosition a of
                           Some _ \<Rightarrow> parts1 @ [orString (currentPosition a) [], orString (industry a) []]
                         | None \<Rightarrow> parts1)
                    | Student _ \<Rightarrow> parts1)
      in join '' '' (filter (\<lambda>p. p \<noteq> []) parts2))"

text \<open>The \<open>try\<close> block of \<open>generateProfileEmbedding\<close> can only throw in the remote call.\<close>

definition generateProfileEmbedding :: "Environment \<Rightarrow> Seeker \<Rightarrow> real list" where
  "generateProfileEmbedding env profile =
     (let profileText = createProfileText profile
      in if demoKey env then getMockEmbedding profileText
         else (case embeddingsCreate env profileText of
                 Some embedding \<Rightarrow> embedding
               | None \<Rightarrow> getMockEmbedding ''fallback''))"

text \<open>The field \<open>embeddings\<close> of the engine: a map from cache keys to vectors.\<close>

type_synonym EmbeddingCache = "string \<rightharpoonup> real list"

definition getAlumniEmbedding ::
    "Environment \<Rightarrow> EmbeddingCache \<Rightarrow> AlumniProfile \<Rightarrow> real list \<times> EmbeddingCache" where
  "getAlumniEmbedding env embeddings alumni =
     (let key = ''alumni_'' @ profileId alumni
      in case embeddings key of
           Some embedding \<Rightarrow> (embedding, embeddings)
         | None \<Rightarrow>
             (let embedding = generateProfileEmbedding env (Alumnus alumni)
              in (embedding, embeddings(key \<mapsto> embedding))))"

text \<open>The constructor's \<open>loadMockEmbeddings\<close>: the cache of a fresh engine.\<close>

definition loadMockEmbeddings :: "EmbeddingCache" where
  "loadMockEmbeddings =
     foldl (\<lambda>embeddings profile. embeddings(profile \<mapsto> getMockEmbedding profile)) Map.empty
       [''computer science software engineer'', ''business marketing manager'',
        ''engineering project manager'', ''data science analyst'']"

subsection \<open>One candidate\<close>

text \<open>
  \<open>getTopSkills\<close> sorts the array it is given in place, by
  \<open>b.level.localeCompare(a.level)\<close>: descending in the alphabetical order of the
  four level names. It returns the first three names; the model returns the sorted
  array as well, which is the candidate's \<open>skills\<close> from then on.
\<close>

fun levelRank :: "SkillLevel \<Rightarrow> nat" where
  "levelRank Advanced = 0"
| "levelRank Beginner = 1"
| "levelRank Expert = 2"
| "levelRank Intermediate = 3"

definition getTopSkills :: "Skill list \<Rightarrow> string list \<times> Skill list" where
  "getTopSkills skills' =
     (let sortedSkills = sortBy (\<lambda>a b. levelRank (level a) < levelRank (level b)) skills'
      in (map name (take 3 sortedSkills), sortedSkills))"

record AlumniMatch =
  alumni :: AlumniProfile
  score :: jsnum
  reasons :: "string list"
  matchTypes :: "MatchCriteria list"
  aiInsights :: string

text \<open>The variables of \<open>calculateMatch\<close> that the loop over the criteria updates.\<close>

record MatchState =
  candidate :: AlumniProfile
  totalScore :: jsnum
  totalWeight :: real
  reasonsSoFar :: "string list"
  matchTypesSoFar :: "MatchCriteria list"

definition addScore :: "MatchState \<Rightarrow> MatchCriteria \<Rightarrow> jsnum \<Rightarrow> MatchState" where
  "addScore st criterion score' =
     st\<lparr>totalScore := js_add (totalScore st) (js_mul score' (Num (weight criterion))),
        totalWeight := totalWeight st + weight criterion\<rparr>"

definition pushReason :: "MatchState \<Rightarrow> MatchCriteria \<Rightarrow> string \<Rightarrow> MatchState" where
  "pushReason st criterion reason =
     st\<lparr>reasonsSoFar := reasonsSoFar st @ [reason],
        matchTypesSoFar := matchTypesSoFar st @ [criterion]\<rparr>"

definition criterionStep ::
    "Environment \<Rightarrow> Seeker \<Rightarrow> MatchState \<Rightarrow> MatchCriteria \<Rightarrow> js_error + MatchState" where
  "criterionStep env seeker st criterion =
     (case ctype criterion of
        career_similarity \<Rightarrow>
          (let score' = calculateCareerSimilarity seeker (candidate st);
               st1 = (if score' > 0.7
                      then pushReason st criterion
                             (''Strong career alignment in '' @
                              orString (industry (candidate st)) (department (candidate st)))
                      else st)
           in Inr (addScore st1 criterion (Num score')))
      | skill_complement \<Rightarrow>
          (case calculateSkillComplement seeker (candidate st) of
             Inl e \<Rightarrow> Inl e
           | Inr score' \<Rightarrow>
               (let st1 = (if js_gt score' (Num 0.6)
                           then (case getTopSkills (skills (candidate st)) of
                                   (topSkills, sortedSkills) \<Rightarrow>
                                     pushReason (st\<lparr>candidate := (candidate st)\<lparr>skills := sortedSkills\<rparr>\<rparr>)
                                       criterion (''Complementary skills in '' @ join '', '' topSkills))
                           else st)
                in Inr (addScore st1 criterion score')))
      | geographic_proximity \<Rightarrow>
          (let score' = calculateGeographicProximity seeker (candidate st);
               st1 = (if score' > 0.8
                      then pushReason st criterion
                             (''Both located in '' @
                              orString (workLocation (candidate st)) ''similar area'')
                      else st)
           in Inr (addScore st1 criterion (Num score')))
      | mentorship_fit \<Rightarrow>
          (let score' = calculateMentorshipFit seeker (candidate st);
               st1 = (if score' > 0.7 \<and> isMentor (candidate st)
                      then pushReason st criterion
                             (''Excellent mentorship match - '' @
                              (case yearsExperience (candidate st) of
                                 None \<Rightarrow> ''undefined''
                               | Some y \<Rightarrow> numberToString env y) @
                              ''+ years experience'')
                      else st)
           in Inr (addScore st1 criterion (Num score'))))"

text \<open>The loop over the criteria stops at the first exception, which leaves the state as it was.\<close>

fun criteriaLoop ::
    "Environment \<Rightarrow> Seeker \<Rightarrow> MatchState \<Rightarrow> MatchCriteria list \<Rightarrow> MatchState \<times> js_error option" where
  "criteriaLoop env seeker st [] = (st, None)"
| "criteriaLoop env seeker st (criterion # criteria) =
     (case criterionStep env seeker st criterion of
        Inl e \<Rightarrow> (st, Some e)
      | Inr st' \<Rightarrow> criteriaLoop env seeker st' criteria)"

text \<open>
  \<open>calculateMatch\<close> returns the match or the exception, together with what it leaves
  behind: the candidate object and the embedding cache.
\<close>

definition calculateMatch ::
    "Environment \<Rightarrow> EmbeddingCache \<Rightarrow> Seeker \<Rightarrow> AlumniProfile \<Rightarrow> MatchCriteria list \<Rightarrow> real list
      \<Rightarrow> (AlumniProfile \<times> EmbeddingCache) \<times> (js_error + AlumniMatch)" where
  "calculateMatch env embeddings seeker alumni' criteria seekerEmbedding =
     (case criteriaLoop env seeker
             \<lparr>candidate = alumni', totalScore = Num 0, totalWeight = 0,
              reasonsSoFar = [], matchTypesSoFar = []\<rparr> criteria of
        (st, Some e) \<Rightarrow> ((candidate st, embeddings), Inl e)
      | (st, None) \<Rightarrow>
          (case getAlumniEmbedding env embeddings (candidate st) of
             (alumniEmbedding, embeddings') \<Rightarrow>
               (let semanticSimilarity = calculateCosineSimilarity seekerEmbedding alumniEmbedding;
                    finalScore =
                      (if totalWeight st > 0
                       then js_add (js_mul (js_div (totalScore st) (Num (totalWeight st))) (Num 0.7))
                                   (js_mul semanticSimilarity (Num 0.3))
                       else semanticSimilarity);
                    aiInsights' = insightText env seeker (candidate st) finalScore
                in ((candidate st, embeddings'),
                    Inr \<lparr>alumni = candidate st, score = finalScore, reasons = reasonsSoFar st,
                         matchTypes = matchTypesSoFar st, aiInsights = aiInsights'\<rparr>))))"

subsection \<open>The ranking call\<close>

definition getDefaultCriteria :: "MatchCriteria list" where
  "getDefaultCriteria =
     [\<lparr>ctype = career_similarity, weight = 0.3\<rparr>,
      \<lparr>ctype = skill_complement, weight = 0.25\<rparr>,
      \<lparr>ctype = mentorship_fit, weight = 0.25\<rparr>,
      \<lparr>ctype = geographic_proximity, weight = 0.2\<rparr>]"

definition getFallbackMatches :: "Environment \<Rightarrow> AlumniProfile list \<Rightarrow> int \<Rightarrow> AlumniMatch list" where
  "getFallbackMatches env alumni' limit =
     map (\<lambda>(i, a).
            \<lparr>alumni = a, score = Num (0.5 + mathRandom env i * 0.3),
             reasons = [''Profile compatibility'', ''Shared academic background''],
             matchTypes = [\<lparr>ctype = career_similarity, weight = 1.0\<rparr>],
             aiInsights = ''Good potential for professional networking and career insights.''\<rparr>)
         (enumerate 0 (slice0 alumni' limit))"

text \<open>
  The loop of \<open>findMatches\<close> over the pool. The state is the pool (the candidates
  already visited, as \<open>calculateMatch\<close> left them), the cache and the matches pushed so
  far. An exception ends the loop.
\<close>

fun matchLoop ::
    "Environment \<Rightarrow> Seeker \<Rightarrow> MatchCriteria list \<Rightarrow> real list \<Rightarrow> AlumniProfile list
      \<Rightarrow> AlumniProfile list \<times> EmbeddingCache \<times> AlumniMatch list
      \<Rightarrow> (AlumniProfile list \<times> EmbeddingCache) \<times> (js_error + AlumniMatch list)" where
  "matchLoop env seeker criteria profileEmbedding [] (visited, embeddings, matches) =
     ((visited, embeddings), Inr matches)"
| "matchLoop env seeker criteria profileEmbedding (a # rest) (visited, embeddings, matches) =
     (case calculateMatch env embeddings seeker a criteria profileEmbedding of
        ((a', embeddings'), Inl e) \<Rightarrow> ((visited @ a' # rest, embeddings'), Inl e)
      | ((a', embeddings'), Inr match) \<Rightarrow>
          matchLoop env seeker criteria profileEmbedding rest
            (visited @ [a'], embeddings',
             if js_gt (score match) (Num 0.3) then matches @ [match] else matches))"

text \<open>
  The \<open>try\<close> block of \<open>findMatches\<close> up to the end of its loop: the embedding of
  the seeker, then the loop. Sorting and slicing the matches cannot throw.
\<close>

definition tryFindMatches ::
    "Environment \<Rightarrow> EmbeddingCache \<Rightarrow> Seeker \<Rightarrow> AlumniProfile list \<Rightarrow> MatchCriteria list
      \<Rightarrow> (AlumniProfile list \<times> EmbeddingCache) \<times> (js_error + AlumniMatch list)" where
  "tryFindMatches env embeddings profile availableAlumni criteria =
     (let profileEmbedding = generateProfileEmbedding env profile
      in matchLoop env profile criteria profileEmbedding availableAlumni ([], embeddings, []))"

text \<open>
  The default values of the parameters \<open>criteria\<close> and \<open>limit\<close> of
  \<open>findMatches\<close>: an argument is \<open>None\<close> when the caller leaves it out.
\<close>

definition criteriaOrDefault :: "MatchCriteria list option \<Rightarrow> MatchCriteria list" where
  "criteriaOrDefault criteria = (case criteria of None \<Rightarrow> getDefaultCriteria | Some c \<Rightarrow> c)"

definition limitOrDefault :: "int option \<Rightarrow> int" where
  "limitOrDefault limit = (case limit of None \<Rightarrow> 10 | Some l \<Rightarrow> l)"

text \<open>
  \<open>findMatches\<close>. Besides the matches, the result holds the pool and the cache as
  the call leaves them.
\<close>

definition findMatches ::
    "Environment \<Rightarrow> EmbeddingCache \<Rightarrow> Seeker \<Rightarrow> AlumniProfile list \<Rightarrow> MatchCriteria list option
      \<Rightarrow> int option \<Rightarrow> AlumniMatch list \<times> AlumniProfile list \<times> EmbeddingCache" where
  "findMatches env embeddings profile availableAlumni criteria limit =
     (case tryFindMatches env embeddings profile availableAlumni (criteriaOrDefault criteria) of
        ((pool, embeddings'), Inr matches) \<Rightarrow>
          (slice0 (sortBy (\<lambda>a b. js_gt (js_sub (score b) (score a)) (Num 0)) matches)
             (limitOrDefault limit),
           pool, embeddings')
      | ((pool, embeddings'), Inl e) \<Rightarrow>
          (getFallbackMatches env pool (limitOrDefault limit), pool, embeddings'))"

section \<open>IntelligentMatchingEngine\<close>

datatype ContextType = networking | mentorship | career_guidance | collaboration

text \<open>\<open>MatchingContext\<close>; the field \<open>context\<close> is called \<open>contextType\<close> here.\<close>

record MatchingContext =
  userProfile :: Seeker
  contextType :: ContextType

definition ime_calculateMentorshipFit :: "MatchingContext \<Rightarrow> AlumniProfile \<Rightarrow> real" where
  "ime_calculateMentorshipFit ctxt candidateProfile =
     (if contextType ctxt \<noteq> mentorship then 0.5
      else if \<not> isMentor candidateProfile then 0.1
      else
        (let score0 = 0.7;
             score1 =
               (case userProfile ctxt of
                  Student s \<Rightarrow>
                    (let userInterests = map toLowerCase (careerInterests s);
                         mentorCategories' = map toLowerCase (mentorCategories candidateProfile);
                         alignment = length (filter (\<lambda>interest.
                             list_ex (\<lambda>category. includes_str category interest \<or>
                                                   includes_str interest category)
                               mentorCategories') userInterests)
                     in score0 + (real alignment / real (max (length userInterests) 1)) * 0.3)
                | Alumnus _ \<Rightarrow> score0)
         in min score1 1.0))"

section \<open>The match route\<close>

text \<open>
  The route has its own profile shapes: the \<open>studentProfile\<close> of the request and the
  entries of \<open>mockAlumni\<close>. Their fields carry the prefixes \<open>s_\<close> and \<open>a_\<close>.
\<close>

record RouteStudent =
  s_name :: string
  s_major :: string
  s_careerInterests :: "string list"
  s_skills :: "string list"
  s_location :: string
  s_isSeekingMentorship :: bool
  s_bio :: "string option"

record RouteAlumni =
  a_id :: string
  a_name :: string
  a_currentPosition :: string
  a_currentCompany :: string
  a_industry :: string
  a_graduationYear :: nat
  a_skills :: "string list"
  a_location :: string
  a_bio :: string
  a_isAvailableForMentoring :: bool

definition mockAlumni :: "RouteAlumni list" where
  "mockAlumni =
     [\<lparr>a_id = ''1'', a_name = ''Sarah Chen'', a_currentPosition = ''Senior Software Engineer'',
       a_currentCompany = ''Google'', a_industry = ''Technology'', a_graduationYear = 2018,
       a_skills = [''JavaScript'', ''Python'', ''Machine Learning'', ''Cloud Architecture''],
       a_location = ''San Francisco, CA'',
       a_bio = ''Passionate about AI and full-stack development. Love mentoring new graduates.'',
       a_isAvailableForMentoring = True\<rparr>,
      \<lparr>a_id = ''2'', a_name = ''Michael Rodriguez'', a_currentPosition = ''Product Manager'',
       a_currentCompany = ''Meta'', a_industry = ''Technology'', a_graduationYear = 2019,
       a_skills = [''Product Strategy'', ''Data Analysis'', ''User Research'', ''Agile''],
       a_location = ''Seattle, WA'',
       a_bio = ''Product leader with experience in social platforms and AR/VR.'',
       a_isAvailableForMentoring = True\<rparr>,
      \<lparr>a_id = ''3'', a_name = ''Dr. Emily Johnson'', a_currentPosition = ''Research Scientist'',
       a_currentCompany = ''Stanford Research Institute'', a_industry = ''Healthcare'',
       a_graduationYear = 2016,
       a_skills = [''Biomedical Engineering'', ''Data Science'', ''Research'', ''Publications''],
       a_location = ''Palo Alto, CA'',
       a_bio = ''Researching AI applications in healthcare and medical devices.'',
       a_isAvailableForMentoring = True\<rparr>,
      \<lparr>a_id = ''4'', a_name = ''David Park'', a_currentPosition = ''Startup Founder'',
       a_currentCompany = ''TechFlow Solutions'', a_industry = ''Entrepreneurship'',
       a_graduationYear = 2017,
       a_skills = [''Leadership'', ''Business Strategy'', ''Fundraising'', ''Product Development''],
       a_location = ''Austin, TX'',
       a_bio = ''Serial entrepreneur focused on B2B SaaS solutions.'',
       a_isAvailableForMentoring = True\<rparr>,
      \<lparr>a_id = ''5'', a_name = ''Jessica Wong'', a_currentPosition = ''UX Design Lead'',
       a_currentCompany = ''Apple'', a_industry = ''Technology'', a_graduationYear = 2020,
       a_skills = [''User Experience'', ''Design Systems'', ''Prototyping'', ''User Research''],
       a_location = ''Cupertino, CA'',
       a_bio = ''Creating intuitive user experiences for consumer products.'',
       a_isAvailableForMentoring = True\<rparr>]"

subsection \<open>Similarity of two texts\<close>

definition calculateSimpleTextSimilarity :: "string \<Rightarrow> string \<Rightarrow> real" where
  "calculateSimpleTextSimilarity text1 text2 =
     (let words1 = splitWhiteSpace (toLowerCase text1);
          words2 = splitWhiteSpace (toLowerCase text2);
          commonWords = filter (\<lambda>word. word \<in> set words2) words1;
          totalWords = length (remdups (words1 @ words2))
      in real (length commonWords) / real totalWords)"

text \<open>
  \<open>calculateSemanticSimilarity\<close>: \<open>create\<close> is the route's call of
  \<open>openai.embeddings.create\<close>, \<open>None\<close> when it throws; the \<open>catch\<close> block then
  falls back to the word overlap.
\<close>

definition calculateSemanticSimilarity ::
    "(string \<Rightarrow> real list option) \<Rightarrow> string \<Rightarrow> string \<Rightarrow> jsnum" where
  "calculateSemanticSimilarity create text1 text2 =
     (case create text1 of
        None \<Rightarrow> Num (calculateSimpleTextSimilarity text1 text2)
      | Some embedding1 \<Rightarrow>
          (case create text2 of
             None \<Rightarrow> Num (calculateSimpleTextSimilarity text1 text2)
           | Some embedding2 \<Rightarrow> embeddingCosine embedding1 embedding2))"

subsection \<open>Sub-scores of the route\<close>

definition calculateSkillsMatch :: "string list \<Rightarrow> string list \<Rightarrow> real" where
  "calculateSkillsMatch studentSkills alumniSkills =
     (let studentSkillsLower = map toLowerCase studentSkills;
          alumniSkillsLower = map toLowerCase alumniSkills;
          matchingSkills = filter (\<lambda>skill.
              list_ex (\<lambda>alumniSkill. includes_str alumniSkill skill \<or> includes_str skill alumniSkill)
                alumniSkillsLower) studentSkillsLower;
          complementarySkills = filter (\<lambda>skill.
              \<not> list_ex (\<lambda>studentSkill. includes_str studentSkill skill \<or> includes_str skill studentSkill)
                  studentSkillsLower) alumniSkillsLower;
          matchScore = real (length matchingSkills) / real (max (length studentSkills) 1);
          complementScore = min (real (length complementarySkills) / 5) 1
      in (matchScore * 0.4) + (complementScore * 0.6))"

definition getState :: "string \<Rightarrow> string" where
  "getState loc = last (map trim (split CHR '','' loc))"

definition westCoast :: "string list" where
  "westCoast = [''ca'', ''california'', ''wa'', ''washington'', ''or'', ''oregon'']"

definition eastCoast :: "string list" where
  "eastCoast = [''ny'', ''new york'', ''ma'', ''massachusetts'', ''ct'', ''connecticut'']"

definition texas :: "string list" where
  "texas = [''tx'', ''texas'']"

definition isWestCoast :: "string \<Rightarrow> bool" where
  "isWestCoast state = list_ex (\<lambda>w. includes_str state w) westCoast"

definition isEastCoast :: "string \<Rightarrow> bool" where
  "isEastCoast state = list_ex (\<lambda>e. includes_str state e) eastCoast"

definition isTexas :: "string \<Rightarrow> bool" where
  "isTexas state = list_ex (\<lambda>t. includes_str state t) texas"

text \<open>\<open>calculateGeographicProximity\<close> of the route.\<close>

definition route_calculateGeographicProximity :: "string \<Rightarrow> string \<Rightarrow> real" where
  "route_calculateGeographicProximity location1 location2 =
     (let loc1 = toLowerCase location1;
          loc2 = toLowerCase location2
      in if loc1 = loc2 then 1.0
         else
           (let state1 = getState loc1;
                state2 = getState loc2
            in if state1 = state2 then 0.7
               else if (isWestCoast state1 \<and> isWestCoast state2) \<or>
                       (isEastCoast state1 \<and> isEastCoast state2) \<or>
                       (isTexas state1 \<and> isTexas state2)
                    then 0.5
                    else 0.2))"

subsection \<open>Score and ranking\<close>

definition criterionScore ::
    "(string \<Rightarrow> real list option) \<Rightarrow> RouteStudent \<Rightarrow> RouteAlumni \<Rightarrow> MatchCriteria \<Rightarrow> jsnum" where
  "criterionScore create studentProfile alumniProfile criterion =
     (case ctype criterion of
        career_similarity \<Rightarrow>
          (let careerText = s_major studentProfile @ '' '' @ join '' '' (s_careerInterests studentProfile);
               alumniCareerText = a_currentPosition alumniProfile @ '' '' @ a_industry alumniProfile
           in calculateSemanticSimilarity create careerText alumniCareerText)
      | skill_complement \<Rightarrow>
          Num (calculateSkillsMatch (s_skills studentProfile) (a_skills alumniProfile))
      | mentorship_fit \<Rightarrow>
          (if \<not> a_isAvailableForMentoring alumniProfile \<or> \<not> s_isSeekingMentorship studentProfile
           then Num 0
           else
             (let studentBio = orString (s_bio studentProfile) [];
                  mentorshipScore = calculateSemanticSimilarity create studentBio (a_bio alumniProfile)
              in js_add (js_mul mentorshipScore (Num 0.8)) (Num 0.2)))
      | geographic_proximity \<Rightarrow>
          Num (route_calculateGeographicProximity (s_location studentProfile) (a_location alumniProfile)))"

definition calculateMatchScore ::
    "(string \<Rightarrow> real list option) \<Rightarrow> RouteStudent \<Rightarrow> RouteAlumni \<Rightarrow> MatchCriteria list \<Rightarrow> jsnum" where
  "calculateMatchScore create studentProfile alumniProfile criteria =
     (let totalScore' =
            foldl (\<lambda>total criterion.
                     js_add total
                       (js_mul (criterionScore create studentProfile alumniProfile criterion)
                               (Num (weight criterion))))
                  (Num 0) criteria
      in js_min totalScore' (Num 1.0))"

text \<open>
  The request body and the response of \<open>POST\<close>. A scored entry is the alumni record
  with its \<open>matchScore\<close>; the explanatory \<open>matchReasons\<close>, which do not enter score
  or order, are left out. A missing profile or an empty name is answered with status 400.
\<close>

record MatchRequest =
  studentProfile :: "RouteStudent option"
  requestCriteria :: "MatchCriteria list option"
  requestLimit :: "int option"

record ScoredAlumni =
  scoredAlumni :: RouteAlumni
  matchScore :: jsnum

datatype Response = Status400 | Matches "ScoredAlumni list"

text \<open>The defaults of the destructured request body.\<close>

definition bodyCriteria :: "MatchRequest \<Rightarrow> MatchCriteria list" where
  "bodyCriteria body =
     (case requestCriteria body of
        None \<Rightarrow> [\<lparr>ctype = career_similarity, weight = 0.3\<rparr>,
                 \<lparr>ctype = skill_complement, weight = 0.25\<rparr>,
                 \<lparr>ctype = mentorship_fit, weight = 0.25\<rparr>,
                 \<lparr>ctype = geographic_proximity, weight = 0.2\<rparr>]
      | Some c \<Rightarrow> c)"

definition bodyLimit :: "MatchRequest \<Rightarrow> int" where
  "bodyLimit body = (case requestLimit body of None \<Rightarrow> 10 | Some l \<Rightarrow> l)"

definition POST :: "(string \<Rightarrow> real list option) \<Rightarrow> MatchRequest \<Rightarrow> Response" where
  "POST create body =
     (let criteria = bodyCriteria body;
          limit = bodyLimit body
      in case studentProfile body of
           None \<Rightarrow> Status400
         | Some student \<Rightarrow>
             if s_name student = [] then Status400
             else
               (let matches = map (\<lambda>a. \<lparr>scoredAlumni = a,
                                         matchScore = calculateMatchScore create student a criteria\<rparr>)
                                  mockAlumni;
                    topMatches = slice0 (sortBy (\<lambda>a b. js_gt (js_sub (matchScore b) (matchScore a)) (Num 0))
                                           matches) limit
                in Matches topMatches))"

section \<open>The rule score as the specification states it\<close>

text \<open>
  The specification's step 1: the sum over the criteria of sub-score times weight, and
  the sum of the weights, for a seeker and a candidate. A sub-score that does not exist
  because its computation throws stands as NaN.
\<close>

definition subScore :: "Seeker \<Rightarrow> AlumniProfile \<Rightarrow> CriterionType \<Rightarrow> jsnum" where
  "subScore seeker alumni' kind =
     (case kind of
        career_similarity \<Rightarrow> Num (calculateCareerSimilarity seeker alumni')
      | skill_complement \<Rightarrow>
          (case calculateSkillComplement seeker alumni' of Inl e \<Rightarrow> NaN | Inr s \<Rightarrow> s)
      | geographic_proximity \<Rightarrow> Num (calculateGeographicProximity seeker alumni')
      | mentorship_fit \<Rightarrow> Num (calculateMentorshipFit seeker alumni'))"

definition weightedTotal :: "Seeker \<Rightarrow> AlumniProfile \<Rightarrow> MatchCriteria list \<Rightarrow> jsnum" where
  "weightedTotal seeker alumni' criteria =
     foldl (\<lambda>total criterion.
              js_add total (js_mul (subScore seeker alumni' (ctype criterion)) (Num (weight criterion))))
           (Num 0) criteria"

definition weightTotal :: "MatchCriteria list \<Rightarrow> real" where
  "weightTotal criteria = sum_list (map weight criteria)"

section \<open>Common parts of two locations\<close>

text \<open>
  The comma-separated parts of a location, trimmed and lower-cased, and the test of
  \<open>AlumniMatchingEngine.calculateGeographicProximity\<close> for a common part: some part
  of the seeker's location contains, or is contained in, a part of the candidate's.
\<close>

definition locationParts :: "string \<Rightarrow> string list" where
  "locationParts location = map (\<lambda>p. toLowerCase (trim p)) (split CHR '','' location)"

definition partsOverlap :: "string \<Rightarrow> string \<Rightarrow> bool" where
  "partsOverlap seekerLocation alumniLocation =
     list_ex (\<lambda>part. list_ex (\<lambda>ap. includes_str ap part \<or> includes_str part ap)
                        (locationParts alumniLocation))
       (locationParts seekerLocation)"

section \<open>The mentorship bonuses as the specification lists them\<close>

text \<open>
  The specification describes the mentorship fit of an available candidate as 0.5 plus
  three bonuses. They are written down here from its words, to be compared with
  \<open>calculateMentorshipFit\<close>. The seeker's interest tags are the career interests of a
  student and the department of an alumni seeker.
\<close>

definition seekingBonus :: "Seeker \<Rightarrow> real" where
  "seekingBonus seeker =
     (case seeker of Student s \<Rightarrow> (if isSeekingMentorship s then 0.3 else 0) | Alumnus _ \<Rightarrow> 0)"

definition experienceGap :: "Seeker \<Rightarrow> AlumniProfile \<Rightarrow> real" where
  "experienceGap seeker alumni' =
     orZero (yearsExperience alumni') -
     (case seeker of Student _ \<Rightarrow> 0 | Alumnus a \<Rightarrow> orZero (yearsExperience a))"

definition gapBonus :: "Seeker \<Rightarrow> AlumniProfile \<Rightarrow> real" where
  "gapBonus seeker alumni' =
     (if 3 \<le> experienceGap seeker alumni' \<and> experienceGap seeker alumni' \<le> 15 then 0.2 else 0)"

definition interestTags :: "Seeker \<Rightarrow> string list" where
  "interestTags seeker = (case seeker of Student s \<Rightarrow> careerInterests s | Alumnus a \<Rightarrow> [department a])"

definition tagsOverlap :: "string \<Rightarrow> string \<Rightarrow> bool" where
  "tagsOverlap category interest =
     (includes_str (toLowerCase category) (toLowerCase interest) \<or>
      includes_str (toLowerCase interest) (toLowerCase category))"

definition categoryBonus :: "Seeker \<Rightarrow> AlumniProfile \<Rightarrow> real" where
  "categoryBonus seeker alumni' =
     (if list_ex (\<lambda>category. list_ex (tagsOverlap category) (interestTags seeker))
           (mentorCategories alumni')
      then 0.2 else 0)"

section \<open>Example profiles\<close>

definition exampleStudent :: StudentProfile where
  "exampleStudent =
     \<lparr>profileId = ''student-1'', department = ''Computer Science'',
      skills = [\<lparr>name = ''JavaScript'', level = Intermediate\<rparr>, \<lparr>name = ''Python'', level = Beginner\<rparr>],
      institutionLocation = Some ''San Francisco, CA'',
      careerInterests = [''Software Engineering'', ''AI''],
      isSeekingMentorship = True\<rparr>"

definition exampleAlumni :: AlumniProfile where
  "exampleAlumni =
     \<lparr>profileId = ''alumni-1'', department = ''Computer Science'',
      skills = [\<lparr>name = ''Python'', level = Expert\<rparr>],
      institutionLocation = None,
      currentPosition = Some ''Senior Software Engineer'', industry = Some ''Technology'',
      workLocation = Some ''Boston, MA'', yearsExperience = Some 6,
      isMentor = False, mentorCategories = []\<rparr>"

text \<open>
  An engine without a reachable embedding service: the key is not the demo key and every
  call of \<open>openai.embeddings.create\<close> throws.
\<close>

definition offlineEnvironment :: Environment where
  "offlineEnvironment =
     \<lparr>demoKey = False, embeddingsCreate = Map.empty,
      insightText = (\<lambda>seeker alumni' score'. ''Great potential for career growth and networking.''),
      numberToString = (\<lambda>x. ''6''),
      mathRandom = (\<lambda>i. 0)\<rparr>"

text \<open>A candidate whose skills array names one skill ten times.\<close>

definition repeatedSkillAlumni :: AlumniProfile where
  "repeatedSkillAlumni =
     exampleAlumni\<lparr>skills := replicate 10 \<lparr>name = ''Python'', level = Expert\<rparr>\<rparr>"

definition secondAlumni :: AlumniProfile where
  "secondAlumni = exampleAlumni\<lparr>profileId := ''alumni-0''\<rparr>"

text \<open>A student whose department is the name of a property that every object inherits.\<close>

definition constructorStudent :: StudentProfile where
  "constructorStudent = exampleStudent\<lparr>department := ''constructor''\<rparr>"

text \<open>A request to the route that leaves criteria and limit to their defaults.\<close>

definition exampleRouteStudent :: RouteStudent where
  "exampleRouteStudent =
     \<lparr>s_name = ''Jane Doe'', s_major = ''History'', s_careerInterests = [], s_skills = [],
      s_location = ''Paris, France'', s_isSeekingMentorship = False, s_bio = None\<rparr>"

definition exampleRequest :: MatchRequest where
  "exampleRequest =
     \<lparr>studentProfile = Some exampleRouteStudent, requestCriteria = None, requestLimit = None\<rparr>"

definition responseScores :: "Response \<Rightarrow> jsnum list" where
  "responseScores response = (case response of Status400 \<Rightarrow> [] | Matches ms \<Rightarrow> map matchScore ms)"

definition responseIds :: "Response \<Rightarrow> string list" where
  "responseIds response =
     (case response of Status400 \<Rightarrow> [] | Matches ms \<Rightarrow> map (\<lambda>m. a_id (scoredAlumni m)) ms)"

text \<open>
  An embedding service that answers every text with the same unit vector, and a student
  of the route located where the first of the mock alumni works.
\<close>

definition unitEmbeddings :: "string \<Rightarrow> real list option" where
  "unitEmbeddings text = Some [1]"

definition sanFranciscoStudent :: RouteStudent where
  "sanFranciscoStudent = exampleRouteStudent\<lparr>s_location := ''San Francisco, CA''\<rparr>"

section \<open>Properties of the embeddings\<close>

subsection \<open>The cosine loop\<close>

lemma cosineLoop_sums:
  "length a = length b \<Longrightarrow>
   cosineLoop a b (d, na, nb) =
     (d + sum_list (map2 (*) a b),
      na + sum_list (map (\<lambda>x. x * x) a),
      nb + sum_list (map (\<lambda>x. x * x) b))"
  by (induction a b arbitrary: d na nb rule: list_induct2) simp_all

lemma sum_squares_nonneg: "0 \<le> sum_list (map (\<lambda>x. x * x) (a :: real list))"
  by (induction a) simp_all

lemma sum_squares_zero:
  "sum_list (map (\<lambda>x. x * x) (a :: real list)) = 0 \<longleftrightarrow> (\<forall>x \<in> set a. x = 0)"
proof (induction a)
  case Nil
  then show ?case by simp
next
  case (Cons x xs)
  have "0 \<le> x * x" by simp
  with Cons sum_squares_nonneg [of xs] show ?case
    by (auto simp: add_nonneg_eq_0_iff)
qed

text \<open>
  The two sibling implementations guard the division: the cosine of
  \<open>IntelligentMatchingEngine\<close> is 0 as soon as one vector is all zeros, and it is
  always a finite number.
\<close>

lemma ime_calculateCosineSimilarity_zero_norm:
  assumes "(\<forall>x \<in> set a. x = 0) \<or> (\<forall>x \<in> set b. x = 0)"
  shows "ime_calculateCosineSimilarity a b = Num 0"
  using assms
  by (auto simp: ime_calculateCosineSimilarity_def cosineLoop_sums sum_squares_zero)

lemma ime_calculateCosineSimilarity_finite: "\<exists>r. ime_calculateCosineSimilarity a b = Num r"
proof (cases "length a = length b")
  case False
  then show ?thesis by (simp add: ime_calculateCosineSimilarity_def)
next
  case True
  have "0 \<le> sum_list (map (\<lambda>x. x * x) a)" "0 \<le> sum_list (map (\<lambda>x. x * x) b)"
    by (rule sum_squares_nonneg)+
  then show ?thesis using True
    by (auto simp: ime_calculateCosineSimilarity_def cosineLoop_sums not_less)
qed

text \<open>
  Claim C5. The cosine similarity is to be 0 whenever a vector has zero norm, without a
  division by zero and without NaN. \<open>AlumniMatchingEngine.calculateCosineSimilarity\<close>
  has no such guard: for the zero vector \<open>[0, 0]\<close> and \<open>[1, 2]\<close> it divides 0 by
  \<open>Math.sqrt(0) * Math.sqrt(5)\<close>, which is 0, and returns NaN.
\<close>

theorem calculateCosineSimilarity_zero_vector_NaN:
  "calculateCosineSimilarity [0, 0] [1, 2] = NaN"
  by (simp add: calculateCosineSimilarity_def)

subsection \<open>The mock embedding\<close>

lemma simpleHash_fallback: "simpleHash ''fallback'' = 761243362"
  by (simp add: simpleHash_def)

lemma getMockEmbedding_length: "length (getMockEmbedding t) = 100"
  by (simp add: getMockEmbedding_def Let_def)

lemma getMockEmbedding_nth:
  "i < 100 \<Longrightarrow> getMockEmbedding t ! i = real ((simpleHash t + i) mod 1000) / 1000 - 1 / 2"
  by (simp add: getMockEmbedding_def Let_def)

lemma getMockEmbedding_range:
  assumes "x \<in> set (getMockEmbedding t)"
  shows "- 1 / 2 \<le> x \<and> x < 1 / 2"
proof -
  from assms obtain i where "x = real ((simpleHash t + i) mod 1000) / 1000 - 1 / 2"
    by (auto simp: getMockEmbedding_def Let_def)
  moreover have "(simpleHash t + i) mod 1000 < 1000" by simp
  then have "real ((simpleHash t + i) mod 1000) < 1000" by linarith
  ultimately show ?thesis by simp
qed

text \<open>
  Claim C8. The fallback embedding is a function of the text alone: it has 100 entries,
  entry \<open>i\<close> is \<open>(simpleHash(text) + i) % 1000 / 1000 - 0.5\<close>, where the hash is
  computed from the code units of the text and nothing else, and every entry lies in
  the half-open interval from -0.5 to 0.5.
\<close>

theorem getMockEmbedding_deterministic_bounded:
  "length (getMockEmbedding text) = 100 \<and>
   (\<forall>i < 100. getMockEmbedding text ! i = real ((simpleHash text + i) mod 1000) / 1000 - 1 / 2) \<and>
   (\<forall>x \<in> set (getMockEmbedding text). - 1 / 2 \<le> x \<and> x < 1 / 2)"
  using getMockEmbedding_length getMockEmbedding_nth getMockEmbedding_range by blast

theorem getMockEmbedding_deterministic_bounded_witness:
  "length (getMockEmbedding ''fallback'') = 100 \<and>
   getMockEmbedding ''fallback'' ! 0 = - 69 / 500 \<and>
   getMockEmbedding ''fallback'' ! 99 = - 39 / 1000"
proof -
  have "(0::nat) < 100" "(99::nat) < 100" by simp_all
  then show ?thesis
    using getMockEmbedding_deterministic_bounded [of "''fallback''"]
    by (simp add: simpleHash_fallback)
qed

section \<open>Properties of the sub-scores\<close>

subsection \<open>Geographic proximity\<close>

lemma route_calculateGeographicProximity_tiers:
  "route_calculateGeographicProximity l1 l2 =
     (if toLowerCase l1 = toLowerCase l2 then 1
      else if getState (toLowerCase l1) = getState (toLowerCase l2) then 7 / 10
      else if (isWestCoast (getState (toLowerCase l1)) \<and> isWestCoast (getState (toLowerCase l2))) \<or>
              (isEastCoast (getState (toLowerCase l1)) \<and> isEastCoast (getState (toLowerCase l2))) \<or>
              (isTexas (getState (toLowerCase l1)) \<and> isTexas (getState (toLowerCase l2)))
           then 1 / 2
           else 1 / 5)"
  by (simp add: route_calculateGeographicProximity_def Let_def)

lemma calculateGeographicProximity_values:
  "calculateGeographicProximity seeker a \<in> {0, 7 / 10, 1}"
  by (simp add: calculateGeographicProximity_def Let_def)

lemma calculateGeographicProximity_missing:
  "extractLocation seeker = [] \<or> orString (workLocation a) [] = [] \<Longrightarrow>
   calculateGeographicProximity seeker a = 0"
  by (auto simp: calculateGeographicProximity_def Let_def)

lemma calculateGeographicProximity_exact:
  "extractLocation seeker \<noteq> [] \<Longrightarrow> orString (workLocation a) [] \<noteq> [] \<Longrightarrow>
   toLowerCase (extractLocation seeker) = toLowerCase (orString (workLocation a) []) \<Longrightarrow>
   calculateGeographicProximity seeker a = 1"
  by (simp add: calculateGeographicProximity_def Let_def)

text \<open>The three scenarios of the specification, on the route's function.\<close>

lemma route_scenario_same_city:
  "route_calculateGeographicProximity ''San Francisco, CA'' ''San Francisco, CA'' = 1"
  by code_simp

lemma route_scenario_same_state:
  "route_calculateGeographicProximity ''San Francisco, CA'' ''Los Angeles, CA'' = 7 / 10"
  by code_simp

lemma route_scenario_other_region:
  "route_calculateGeographicProximity ''San Francisco, CA'' ''Boston, MA'' = 1 / 5"
  by code_simp

text \<open>
  Claim C6, as stated, fails on \<open>AlumniMatchingEngine.calculateGeographicProximity\<close>:
  a seeker in San Francisco, CA and a candidate in Boston, MA are two non-empty
  locations with no common part, and the sub-score is 0, which is none of the four tiers.
\<close>

theorem calculateGeographicProximity_zero_counterexample:
  "extractLocation (Student exampleStudent) = ''San Francisco, CA'' \<and>
   workLocation exampleAlumni = Some ''Boston, MA'' \<and>
   calculateGeographicProximity (Student exampleStudent) exampleAlumni = 0"
  by code_simp

lemma filter_empty_list_ex: "(filter P xs = []) = (\<not> list_ex P xs)"
  by (simp add: filter_empty_conv list_ex_iff)

lemma calculateGeographicProximity_parts:
  assumes "extractLocation seeker \<noteq> []" and "orString (workLocation a) [] \<noteq> []"
    and "toLowerCase (extractLocation seeker) \<noteq> toLowerCase (orString (workLocation a) [])"
  shows "calculateGeographicProximity seeker a =
           (if partsOverlap (extractLocation seeker) (orString (workLocation a) []) then 7 / 10 else 0)"
  using assms
  by (simp add: calculateGeographicProximity_def Let_def partsOverlap_def locationParts_def
      filter_empty_list_ex)

text \<open>
  Claim C6, amended. In the match route the geographic sub-score of any two locations
  is one of four tiers, tried in this order: 1.0 when they are equal up to case, 0.7
  when their last comma-separated tokens are equal, 0.5 when both last tokens contain a
  name of the same region list (West Coast, East Coast or Texas), 0.2 otherwise; it is
  never 0. \<open>AlumniMatchingEngine.calculateGeographicProximity\<close> has the three values 0,
  0.7 and 1.0: it is 0 when a location is missing, 1.0 when two present locations are
  equal up to case, and for two present locations that differ it is 0.7 when some
  comma-separated part of the seeker's location contains or is contained in a part of
  the candidate's, and 0 when there is no such part.
\<close>

theorem geographic_proximity_tiers:
  "route_calculateGeographicProximity l1 l2 =
     (if toLowerCase l1 = toLowerCase l2 then 1
      else if getState (toLowerCase l1) = getState (toLowerCase l2) then 7 / 10
      else if (isWestCoast (getState (toLowerCase l1)) \<and> isWestCoast (getState (toLowerCase l2))) \<or>
              (isEastCoast (getState (toLowerCase l1)) \<and> isEastCoast (getState (toLowerCase l2))) \<or>
              (isTexas (getState (toLowerCase l1)) \<and> isTexas (getState (toLowerCase l2)))
           then 1 / 2
           else 1 / 5) \<and>
   route_calculateGeographicProximity l1 l2 \<noteq> 0 \<and>
   calculateGeographicProximity seeker a \<in> {0, 7 / 10, 1} \<and>
   (extractLocation seeker = [] \<or> orString (workLocation a) [] = [] \<longrightarrow>
      calculateGeographicProximity seeker a = 0) \<and>
   (extractLocation seeker \<noteq> [] \<and> orString (workLocation a) [] \<noteq> [] \<and>
    toLowerCase (extractLocation seeker) = toLowerCase (orString (workLocation a) []) \<longrightarrow>
      calculateGeographicProximity seeker a = 1) \<and>
   (extractLocation seeker \<noteq> [] \<and> orString (workLocation a) [] \<noteq> [] \<and>
    toLowerCase (extractLocation seeker) \<noteq> toLowerCase (orString (workLocation a) []) \<longrightarrow>
      calculateGeographicProximity seeker a =
        (if partsOverlap (extractLocation seeker) (orString (workLocation a) []) then 7 / 10 else 0))"
proof -
  have "route_calculateGeographicProximity l1 l2 \<noteq> 0"
    by (simp add: route_calculateGeographicProximity_tiers)
  then show ?thesis
    using route_calculateGeographicProximity_tiers [of l1 l2]
      calculateGeographicProximity_values [of seeker a]
      calculateGeographicProximity_missing [of seeker a]
      calculateGeographicProximity_exact [of seeker a]
      calculateGeographicProximity_parts [of seeker a]
    by blast
qed

lemma lower_san_francisco: "toLowerCase ''San Francisco, CA'' = ''san francisco, ca''"
  by code_simp

lemma lower_los_angeles: "toLowerCase ''Los Angeles, CA'' = ''los angeles, ca''"
  by code_simp

lemma state_san_francisco: "getState ''san francisco, ca'' = ''ca''"
  by code_simp

lemma state_los_angeles: "getState ''los angeles, ca'' = ''ca''"
  by code_simp

lemma exampleAlumni_no_location_missing:
  "extractLocation (Alumnus (exampleAlumni\<lparr>workLocation := None\<rparr>)) = []"
  by code_simp

lemma example_locations:
  "extractLocation (Student exampleStudent) = ''San Francisco, CA''"
  "orString (workLocation exampleAlumni) [] = ''Boston, MA''"
  "orString (workLocation (exampleAlumni\<lparr>workLocation := Some ''Los Angeles, CA''\<rparr>)) [] = ''Los Angeles, CA''"
  "workLocation exampleAlumni = Some ''Boston, MA''"
  "toLowerCase ''Boston, MA'' = ''boston, ma''"
  "partsOverlap ''San Francisco, CA'' ''Los Angeles, CA'' = True"
  "partsOverlap ''San Francisco, CA'' ''Boston, MA'' = False"
  by code_simp+

theorem geographic_proximity_tiers_witness:
  "route_calculateGeographicProximity ''San Francisco, CA'' ''Los Angeles, CA'' = 7 / 10 \<and>
   calculateGeographicProximity (Alumnus (exampleAlumni\<lparr>workLocation := None\<rparr>)) exampleAlumni = 0 \<and>
   calculateGeographicProximity (Student exampleStudent)
     (exampleAlumni\<lparr>workLocation := Some ''Los Angeles, CA''\<rparr>) = 7 / 10 \<and>
   calculateGeographicProximity (Student exampleStudent) exampleAlumni = 0"
  using geographic_proximity_tiers [of "''San Francisco, CA''" "''Los Angeles, CA''"
      "Alumnus (exampleAlumni\<lparr>workLocation := None\<rparr>)" exampleAlumni]
    geographic_proximity_tiers [of "''San Francisco, CA''" "''Los Angeles, CA''"
      "Student exampleStudent" "exampleAlumni\<lparr>workLocation := Some ''Los Angeles, CA''\<rparr>"]
    geographic_proximity_tiers [of "''San Francisco, CA''" "''Los Angeles, CA''"
      "Student exampleStudent" exampleAlumni]
  by (simp add: lower_san_francisco lower_los_angeles state_san_francisco state_los_angeles
      exampleAlumni_no_location_missing example_locations orString_def)

subsection \<open>Mentorship fit\<close>

lemma calculateMentorshipFit_bonuses:
  "calculateMentorshipFit seeker a =
     (if \<not> isMentor a then 0
      else min (1 / 2 + seekingBonus seeker + gapBonus seeker a + categoryBonus seeker a) 1)"
  by (cases seeker)
     (auto simp: calculateMentorshipFit_def seekingBonus_def gapBonus_def experienceGap_def
       categoryBonus_def interestTags_def tagsOverlap_def Let_def list_ex_iff)

lemma ime_calculateMentorshipFit_not_mentorship:
  "contextType ctxt \<noteq> mentorship \<Longrightarrow> ime_calculateMentorshipFit ctxt a = 1 / 2"
  by (simp add: ime_calculateMentorshipFit_def)

lemma ime_calculateMentorshipFit_not_mentor:
  "contextType ctxt = mentorship \<Longrightarrow> \<not> isMentor a \<Longrightarrow> ime_calculateMentorshipFit ctxt a = 1 / 10"
  by (simp add: ime_calculateMentorshipFit_def)

text \<open>
  Claim C7, as stated, fails on \<open>IntelligentMatchingEngine.calculateMentorshipFit\<close>:
  for a candidate who is not a mentor it returns 0.1 in the mentorship context (and 0.5
  in every other context), not 0.
\<close>

theorem ime_calculateMentorshipFit_counterexample:
  "\<not> isMentor exampleAlumni \<and>
   ime_calculateMentorshipFit \<lparr>userProfile = Student exampleStudent, contextType = mentorship\<rparr>
     exampleAlumni = 1 / 10 \<and>
   ime_calculateMentorshipFit \<lparr>userProfile = Student exampleStudent, contextType = networking\<rparr>
     exampleAlumni = 1 / 2"
  by code_simp

text \<open>
  Claim C7, amended. In \<open>AlumniMatchingEngine.calculateMentorshipFit\<close> the sub-score
  is 0 when the candidate is not a mentor, whatever the seeker's flag; for a mentor it
  is 0.5 plus the bonuses (0.3 for a seeking student, 0.2 for an experience gap from 3
  to 15 years, 0.2 for an interest tag overlapping a mentor category), capped at 1.0.
  \<open>IntelligentMatchingEngine.calculateMentorshipFit\<close> returns 0.5 outside the
  mentorship context and 0.1 for a candidate who is not a mentor inside it.
\<close>

theorem mentorship_fit_rule:
  "(\<not> isMentor a \<longrightarrow> calculateMentorshipFit seeker a = 0) \<and>
   (isMentor a \<longrightarrow>
      calculateMentorshipFit seeker a =
        min (1 / 2 + seekingBonus seeker + gapBonus seeker a + categoryBonus seeker a) 1) \<and>
   (contextType ctxt \<noteq> mentorship \<longrightarrow> ime_calculateMentorshipFit ctxt a = 1 / 2) \<and>
   (contextType ctxt = mentorship \<and> \<not> isMentor a \<longrightarrow> ime_calculateMentorshipFit ctxt a = 1 / 10)"
  using calculateMentorshipFit_bonuses [of seeker a]
    ime_calculateMentorshipFit_not_mentorship [of ctxt a]
    ime_calculateMentorshipFit_not_mentor [of ctxt a]
  by simp

lemma exampleAlumni_not_mentor: "\<not> isMentor exampleAlumni"
  by (simp add: exampleAlumni_def)

lemma example_bonuses:
  "seekingBonus (Student exampleStudent) = 3 / 10"
  "gapBonus (Student exampleStudent) (exampleAlumni\<lparr>isMentor := True\<rparr>) = 1 / 5"
  "categoryBonus (Student exampleStudent) (exampleAlumni\<lparr>isMentor := True\<rparr>) = 0"
  by code_simp+

theorem mentorship_fit_rule_witness:
  "calculateMentorshipFit (Student exampleStudent) exampleAlumni = 0 \<and>
   calculateMentorshipFit (Student exampleStudent) (exampleAlumni\<lparr>isMentor := True\<rparr>) = 1 \<and>
   ime_calculateMentorshipFit \<lparr>userProfile = Student exampleStudent, contextType = mentorship\<rparr>
     exampleAlumni = 1 / 10"
  using mentorship_fit_rule [of exampleAlumni "Student exampleStudent"
      "\<lparr>userProfile = Student exampleStudent, contextType = mentorship\<rparr>"]
    mentorship_fit_rule [of "exampleAlumni\<lparr>isMentor := True\<rparr>" "Student exampleStudent"
      "\<lparr>userProfile = Student exampleStudent, contextType = mentorship\<rparr>"]
  by (simp add: exampleAlumni_not_mentor example_bonuses)

subsection \<open>Skill complementarity\<close>

lemma length_filter_mono:
  "(\<And>x. x \<in> set xs \<Longrightarrow> P x \<Longrightarrow> Q x) \<Longrightarrow> length (filter P xs) \<le> length (filter Q xs)"
proof (induction xs)
  case Nil
  then show ?case by simp
next
  case (Cons x xs)
  then have "length (filter P xs) \<le> length (filter Q xs)" by simp
  moreover have "P x \<Longrightarrow> Q x" using Cons.prems by simp
  ultimately show ?case by auto
qed

lemma ratio_mono:
  fixes k k' m :: nat
  assumes "k \<le> k'"
  shows "real k / real m \<le> real k' / real m"
  using assms by (simp add: divide_right_mono)

text \<open>
  \<open>calculateSkillComplement\<close>: a candidate skill more, anywhere in the array, can
  only add to the overlap and to the complement.
\<close>

lemma calculateSkillComplement_mono:
  assumes needs: "inferNeededSkills seeker = SkillArray ns"
    and before: "skills a = xs @ ys"
    and after: "skills a' = xs @ sk # ys"
  shows "\<exists>x y. calculateSkillComplement seeker a = Inr (Num x) \<and>
               calculateSkillComplement seeker a' = Inr (Num y) \<and> x \<le> y"
proof -
  let ?f = "\<lambda>s. toLowerCase (name s)"
  let ?S = "map ?f (seekerSkills seeker)"
  let ?A = "map ?f (xs @ ys)" and ?A' = "map ?f (xs @ sk # ys)"
  have ov: "length (filter (\<lambda>s. s \<in> set ?A) ?S) \<le> length (filter (\<lambda>s. s \<in> set ?A') ?S)"
    by (rule length_filter_mono) auto
  have co: "length (filter (\<lambda>s. s \<in> set ns) ?A) \<le> length (filter (\<lambda>s. s \<in> set ns) ?A')"
    by simp
  have "real (length (filter (\<lambda>s. s \<in> set ?A) ?S)) / real (max (length ?S) 1) * 0.4
        + real (length (filter (\<lambda>s. s \<in> set ns) ?A)) / real (max (length ns) 1) * 0.6
      \<le> real (length (filter (\<lambda>s. s \<in> set ?A') ?S)) / real (max (length ?S) 1) * 0.4
        + real (length (filter (\<lambda>s. s \<in> set ns) ?A')) / real (max (length ns) 1) * 0.6"
    using ratio_mono [OF ov, of "max (length ?S) 1"] ratio_mono [OF co, of "max (length ns) 1"]
    by (intro add_mono mult_right_mono) simp_all
  then show ?thesis
    using needs before after by (simp add: calculateSkillComplement_def Let_def)
qed

lemma calculateSkillComplement_mono_results:
  assumes before: "skills a = xs @ ys"
    and after: "skills a' = xs @ sk # ys"
    and r: "calculateSkillComplement seeker a = Inr r"
    and r': "calculateSkillComplement seeker a' = Inr r'"
  shows "\<exists>x y. r = Num x \<and> r' = Num y \<and> x \<le> y"
proof (cases "inferNeededSkills seeker")
  case (SkillArray ns)
  from calculateSkillComplement_mono [OF this before after] r r' show ?thesis by auto
next
  case ObjectConstructor
  with after r' show ?thesis by (simp add: calculateSkillComplement_def Let_def)
next
  case ObjectPrototype
  with after r' show ?thesis by (simp add: calculateSkillComplement_def Let_def)
qed

lemma route_blend_mono:
  fixes k k' c c' m :: nat
  assumes "k \<le> k'" and "c \<le> c'"
  shows "real k / real m * 0.4 + min (real c / 5) 1 * 0.6
       \<le> real k' / real m * 0.4 + min (real c' / 5) 1 * 0.6"
proof -
  have "real k / real m \<le> real k' / real m"
    using assms(1) by (simp add: divide_right_mono)
  moreover have "min (real c / 5) 1 \<le> min (real c' / 5) 1"
    using assms(2) by (simp add: min_def)
  ultimately show ?thesis by simp
qed

lemma calculateSkillsMatch_mono:
  "calculateSkillsMatch studentSkills (zs @ ws) \<le> calculateSkillsMatch studentSkills (zs @ z # ws)"
proof -
  let ?S = "map toLowerCase studentSkills"
  let ?A = "map toLowerCase (zs @ ws)" and ?A' = "map toLowerCase (zs @ z # ws)"
  let ?m = "\<lambda>A skill. list_ex (\<lambda>alumniSkill. includes_str alumniSkill skill \<or> includes_str skill alumniSkill) A"
  let ?c = "\<lambda>skill. \<not> list_ex (\<lambda>studentSkill. includes_str studentSkill skill \<or> includes_str skill studentSkill) ?S"
  have ma: "length (filter (?m ?A) ?S) \<le> length (filter (?m ?A') ?S)"
    by (rule length_filter_mono) (auto simp: list_ex_iff)
  have co: "length (filter ?c ?A) \<le> length (filter ?c ?A')"
    by simp
  show ?thesis
    unfolding calculateSkillsMatch_def Let_def
    by (rule route_blend_mono [OF ma co])
qed

text \<open>
  Claim C9. Adding a skill to the candidate's skills never decreases the
  skill-complementarity sub-score; this holds for any added skill, so in particular for
  one the seeker has. For \<open>calculateSkillComplement\<close>: whenever the sub-score exists
  before and after, both are finite numbers and the second is at least the first, and
  that is the case for every department for which \<open>inferNeededSkills\<close> returns an
  array. For \<open>calculateSkillsMatch\<close> of the route the inequality holds for all inputs.
\<close>

theorem skill_complement_monotone:
  assumes "skills a = xs @ ys" and "skills a' = xs @ sk # ys"
  shows "(\<forall>r r'. calculateSkillComplement seeker a = Inr r \<and>
                  calculateSkillComplement seeker a' = Inr r' \<longrightarrow>
                  (\<exists>x y. r = Num x \<and> r' = Num y \<and> x \<le> y)) \<and>
         (\<forall>ns. inferNeededSkills seeker = SkillArray ns \<longrightarrow>
               (\<exists>x y. calculateSkillComplement seeker a = Inr (Num x) \<and>
                      calculateSkillComplement seeker a' = Inr (Num y) \<and> x \<le> y)) \<and>
         calculateSkillsMatch studentSkills (zs @ ws) \<le> calculateSkillsMatch studentSkills (zs @ z # ws)"
  using calculateSkillComplement_mono_results [OF assms]
    calculateSkillComplement_mono [OF _ assms] calculateSkillsMatch_mono
  by blast

lemma exampleStudent_needs:
  "inferNeededSkills (Student exampleStudent) =
     SkillArray [''react'', ''python'', ''aws'', ''docker'', ''kubernetes'']"
  by code_simp

lemma exampleAlumni_skills:
  "skills exampleAlumni = [\<lparr>name = ''Python'', level = Expert\<rparr>] @ []"
  "skills (exampleAlumni\<lparr>skills := [\<lparr>name = ''Python'', level = Expert\<rparr>,
                                     \<lparr>name = ''JavaScript'', level = Expert\<rparr>]\<rparr>) =
     [\<lparr>name = ''Python'', level = Expert\<rparr>] @ \<lparr>name = ''JavaScript'', level = Expert\<rparr> # []"
  by (simp_all add: exampleAlumni_def)

theorem skill_complement_monotone_witness:
  "(\<exists>x y. calculateSkillComplement (Student exampleStudent) exampleAlumni = Inr (Num x) \<and>
          calculateSkillComplement (Student exampleStudent)
            (exampleAlumni\<lparr>skills := [\<lparr>name = ''Python'', level = Expert\<rparr>,
                                     \<lparr>name = ''JavaScript'', level = Expert\<rparr>]\<rparr>) = Inr (Num y) \<and>
          x \<le> y) \<and>
   calculateSkillsMatch [''JavaScript'', ''Python''] ([''Python''] @ []) \<le>
   calculateSkillsMatch [''JavaScript'', ''Python''] ([''Python''] @ ''JavaScript'' # [])"
  using skill_complement_monotone [OF exampleAlumni_skills, of "Student exampleStudent"
      "[''JavaScript'', ''Python'']" "[''Python'']" "[]" "''JavaScript''"]
    exampleStudent_needs
  by blast

section \<open>Properties of the ranking\<close>

subsection \<open>Sorting and slicing\<close>

lemma length_insertBy: "length (insertBy after x ys) = Suc (length ys)"
  by (induction ys) simp_all

lemma length_sortBy: "length (sortBy after xs) = length xs"
  by (induction xs) (simp_all add: sortBy_def length_insertBy)

lemma set_insertBy: "set (insertBy after x ys) = insert x (set ys)"
  by (induction ys) auto

lemma set_sortBy: "set (sortBy after xs) = set xs"
  by (induction xs) (simp_all add: sortBy_def set_insertBy)

lemma sortBy_Cons: "sortBy after (x # xs) = insertBy after x (sortBy after xs)"
  by (simp add: sortBy_def)

lemma sorted_insertBy:
  assumes "\<forall>y \<in> set ys. after x y \<longrightarrow> \<not> after y x"
    and "\<forall>y \<in> set ys. \<forall>z \<in> set ys. \<not> after x y \<longrightarrow> \<not> after y z \<longrightarrow> \<not> after x z"
    and "sorted_wrt (\<lambda>a b. \<not> after a b) ys"
  shows "sorted_wrt (\<lambda>a b. \<not> after a b) (insertBy after x ys)"
  using assms
proof (induction ys)
  case Nil
  then show ?case by simp
next
  case (Cons y ys)
  have tail: "sorted_wrt (\<lambda>a b. \<not> after a b) ys" and head: "\<forall>z \<in> set ys. \<not> after y z"
    using Cons.prems(3) by simp_all
  show ?case
  proof (cases "after x y")
    case True
    have a1: "\<forall>y \<in> set ys. after x y \<longrightarrow> \<not> after y x"
      using Cons.prems(1) by (meson list.set_intros(2))
    have a2: "\<forall>y \<in> set ys. \<forall>z \<in> set ys. \<not> after x y \<longrightarrow> \<not> after y z \<longrightarrow> \<not> after x z"
      using Cons.prems(2) by (meson list.set_intros(2))
    have IH: "sorted_wrt (\<lambda>a b. \<not> after a b) (insertBy after x ys)"
      by (rule Cons.IH [OF a1 a2 tail])
    have "\<not> after y x" using Cons.prems(1) True by (meson list.set_intros(1))
    with head have "\<forall>z \<in> set (insertBy after x ys). \<not> after y z"
      by (simp add: set_insertBy)
    with IH True show ?thesis by simp
  next
    case False
    have "\<forall>z \<in> set ys. \<not> after x z"
    proof
      fix z assume z: "z \<in> set ys"
      then have "\<not> after y z" using head by simp
      with Cons.prems(2) False z show "\<not> after x z"
        by (meson list.set_intros)
    qed
    with False Cons.prems(3) show ?thesis by simp
  qed
qed

lemma sorted_sortBy:
  assumes "\<forall>x \<in> set xs. \<forall>y \<in> set xs. after x y \<longrightarrow> \<not> after y x"
    and "\<forall>x \<in> set xs. \<forall>y \<in> set xs. \<forall>z \<in> set xs.
                  \<not> after x y \<longrightarrow> \<not> after y z \<longrightarrow> \<not> after x z"
  shows "sorted_wrt (\<lambda>a b. \<not> after a b) (sortBy after xs)"
  using assms
proof (induction xs)
  case Nil
  show ?case by (simp add: sortBy_def)
next
  case (Cons x xs)
  have a1: "\<forall>x \<in> set xs. \<forall>y \<in> set xs. after x y \<longrightarrow> \<not> after y x"
    using Cons.prems(1) by (meson list.set_intros(2))
  have a2: "\<forall>x \<in> set xs. \<forall>y \<in> set xs. \<forall>z \<in> set xs.
              \<not> after x y \<longrightarrow> \<not> after y z \<longrightarrow> \<not> after x z"
    using Cons.prems(2) by (meson list.set_intros(2))
  have IH: "sorted_wrt (\<lambda>a b. \<not> after a b) (sortBy after xs)"
    by (rule Cons.IH [OF a1 a2])
  have b1: "\<forall>y \<in> set (sortBy after xs). after x y \<longrightarrow> \<not> after y x"
    using Cons.prems(1) unfolding set_sortBy by (meson list.set_intros)
  have b2: "\<forall>y \<in> set (sortBy after xs). \<forall>z \<in> set (sortBy after xs).
              \<not> after x y \<longrightarrow> \<not> after y z \<longrightarrow> \<not> after x z"
    using Cons.prems(2) unfolding set_sortBy by (meson list.set_intros)
  show ?case
    unfolding sortBy_Cons by (rule sorted_insertBy [OF b1 b2 IH])
qed

lemma filter_insertBy:
  assumes "\<And>y. y \<in> set ys \<Longrightarrow> P x \<Longrightarrow> P y \<Longrightarrow> \<not> after x y"
  shows "filter P (insertBy after x ys) = filter P (x # ys)"
  using assms by (induction ys) auto

lemma filter_sortBy:
  assumes "\<And>x y. P x \<Longrightarrow> P y \<Longrightarrow> \<not> after x y"
  shows "filter P (sortBy after xs) = filter P xs"
proof (induction xs)
  case Nil
  then show ?case by (simp add: sortBy_def)
next
  case (Cons x xs)
  have "filter P (insertBy after x (sortBy after xs)) = filter P (x # sortBy after xs)"
    by (rule filter_insertBy) (use assms in auto)
  with Cons show ?case by (simp add: sortBy_Cons)
qed

lemma js_sub_self_not_gt: "\<not> js_gt (js_sub s s) (Num 0)"
  by (cases s) (simp_all add: js_sub_def)

lemma js_gt_sub:
  "a \<noteq> NaN \<Longrightarrow> b \<noteq> NaN \<Longrightarrow> js_gt (js_sub b a) (Num 0) = js_gt b a"
  by (cases a; cases b) (simp_all add: js_sub_def)

lemma js_gt_asym: "js_gt a b \<Longrightarrow> \<not> js_gt b a"
  by (cases a; cases b) simp_all

lemma js_gt_negtrans:
  "a \<noteq> NaN \<Longrightarrow> b \<noteq> NaN \<Longrightarrow> c \<noteq> NaN \<Longrightarrow> \<not> js_gt b a \<Longrightarrow> \<not> js_gt c b \<Longrightarrow> \<not> js_gt c a"
  by (cases a; cases b; cases c) simp_all

lemma js_gt_not_NaN: "js_gt a b \<Longrightarrow> a \<noteq> NaN"
  by (cases a; cases b) simp_all

lemma length_slice0: "0 \<le> n \<Longrightarrow> length (slice0 xs n) \<le> nat n"
  by (simp add: slice0_def)

lemma set_slice0: "set (slice0 xs n) \<subseteq> set xs"
  by (auto simp: slice0_def dest: in_set_takeD)

lemma slice0_take: "\<exists>k. slice0 xs n = take k xs"
  by (auto simp: slice0_def)

lemma sorted_wrt_slice0: "sorted_wrt R xs \<Longrightarrow> sorted_wrt R (slice0 xs n)"
  by (simp add: slice0_def)

subsection \<open>Exceptions and the state of the pool\<close>

text \<open>
  The only exception of the \<open>try\<close> block comes from \<open>calculateSkillComplement\<close>,
  for a seeker whose department makes \<open>inferNeededSkills\<close> return something that is
  not an array. For any other seeker the loop runs to its end. When it throws, no
  candidate has been changed.
\<close>

lemma calculateSkillComplement_array:
  "inferNeededSkills seeker = SkillArray ns \<Longrightarrow> \<exists>r. calculateSkillComplement seeker a = Inr (Num r)"
  by (simp add: calculateSkillComplement_def Let_def)

lemma calculateSkillComplement_low:
  assumes "\<forall>ns. inferNeededSkills seeker \<noteq> SkillArray ns"
    and "calculateSkillComplement seeker a = Inr r"
  shows "\<not> js_gt r (Num 0.6)"
proof (cases "inferNeededSkills seeker")
  case (SkillArray ns)
  with assms(1) show ?thesis by simp
next
  case ObjectConstructor
  with assms(2) show ?thesis
    by (auto simp: calculateSkillComplement_def Let_def split: if_splits)
next
  case ObjectPrototype
  with assms(2) show ?thesis
    by (auto simp: calculateSkillComplement_def Let_def split: if_splits)
qed

lemma criterionStep_array:
  assumes "inferNeededSkills seeker = SkillArray ns"
  shows "\<exists>st'. criterionStep env seeker st c = Inr st'"
proof (cases "ctype c")
  case skill_complement
  from calculateSkillComplement_array [OF assms, of "candidate st"]
  obtain r where "calculateSkillComplement seeker (candidate st) = Inr (Num r)" ..
  with skill_complement show ?thesis
    by (simp add: criterionStep_def Let_def)
qed (simp_all add: criterionStep_def Let_def)

lemma criteriaLoop_array:
  assumes "inferNeededSkills seeker = SkillArray ns"
  shows "\<exists>st'. criteriaLoop env seeker st cs = (st', None)"
proof (induction cs arbitrary: st)
  case Nil
  show ?case by simp
next
  case (Cons c cs)
  from criterionStep_array [OF assms, of env st c]
  obtain st1 where "criterionStep env seeker st c = Inr st1" ..
  with Cons [of st1] show ?case by simp
qed

lemma calculateMatch_array:
  assumes "inferNeededSkills seeker = SkillArray ns"
  shows "\<exists>a' e' m. calculateMatch env emb seeker a cs v = ((a', e'), Inr m)"
proof -
  from criteriaLoop_array [OF assms]
  obtain st' where "criteriaLoop env seeker
      \<lparr>candidate = a, totalScore = Num 0, totalWeight = 0, reasonsSoFar = [], matchTypesSoFar = []\<rparr> cs
      = (st', None)" by blast
  then show ?thesis
    by (simp add: calculateMatch_def Let_def split: prod.splits)
qed

lemma matchLoop_array:
  assumes "inferNeededSkills seeker = SkillArray ns"
  shows "\<exists>pool' e' ms'. matchLoop env seeker cs v pool (visited, emb, ms) = ((pool', e'), Inr ms')"
proof (induction pool arbitrary: visited emb ms)
  case Nil
  show ?case by simp
next
  case (Cons a pool)
  from calculateMatch_array [OF assms, of env emb a cs v]
  obtain a' e' m where "calculateMatch env emb seeker a cs v = ((a', e'), Inr m)" by blast
  with Cons show ?case by simp
qed

lemma criterionStep_Inl:
  assumes "criterionStep env seeker st c = Inl e"
  shows "\<forall>ns. inferNeededSkills seeker \<noteq> SkillArray ns"
proof
  fix ns
  show "inferNeededSkills seeker \<noteq> SkillArray ns"
  proof
    assume "inferNeededSkills seeker = SkillArray ns"
    from criterionStep_array [OF this, of env st c] assms show False by auto
  qed
qed

lemma criteriaLoop_Some:
  "criteriaLoop env seeker st cs = (st', Some e) \<Longrightarrow> \<forall>ns. inferNeededSkills seeker \<noteq> SkillArray ns"
proof (induction cs arbitrary: st)
  case Nil
  then show ?case by simp
next
  case (Cons c cs)
  show ?case
  proof (cases "criterionStep env seeker st c")
    case (Inl e')
    then show ?thesis by (rule criterionStep_Inl)
  next
    case (Inr st1)
    with Cons.prems have "criteriaLoop env seeker st1 cs = (st', Some e)" by simp
    then show ?thesis by (rule Cons.IH)
  qed
qed

lemma criterionStep_candidate:
  assumes "\<forall>ns. inferNeededSkills seeker \<noteq> SkillArray ns"
    and "criterionStep env seeker st c = Inr st'"
  shows "candidate st' = candidate st"
proof (cases "ctype c")
  case skill_complement
  show ?thesis
  proof (cases "calculateSkillComplement seeker (candidate st)")
    case (Inl e)
    with skill_complement assms(2) show ?thesis by (simp add: criterionStep_def)
  next
    case (Inr r)
    from calculateSkillComplement_low [OF assms(1) Inr] have "\<not> js_gt r (Num 0.6)" .
    with skill_complement assms(2) Inr show ?thesis
      by (auto simp: criterionStep_def Let_def addScore_def)
  qed
next
  case career_similarity
  with assms(2) show ?thesis
    by (auto simp: criterionStep_def Let_def addScore_def pushReason_def split: if_splits)
next
  case geographic_proximity
  with assms(2) show ?thesis
    by (auto simp: criterionStep_def Let_def addScore_def pushReason_def split: if_splits)
next
  case mentorship_fit
  with assms(2) show ?thesis
    by (auto simp: criterionStep_def Let_def addScore_def pushReason_def split: if_splits)
qed

lemma criteriaLoop_candidate:
  assumes "\<forall>ns. inferNeededSkills seeker \<noteq> SkillArray ns"
  shows "criteriaLoop env seeker st cs = (st', r) \<Longrightarrow> candidate st' = candidate st"
proof (induction cs arbitrary: st)
  case Nil
  then show ?case by simp
next
  case (Cons c cs)
  show ?case
  proof (cases "criterionStep env seeker st c")
    case (Inl e')
    with Cons.prems show ?thesis by simp
  next
    case (Inr st1)
    with Cons.prems have "criteriaLoop env seeker st1 cs = (st', r)" by simp
    then have "candidate st' = candidate st1" by (rule Cons.IH)
    with criterionStep_candidate [OF assms Inr] show ?thesis by simp
  qed
qed

lemma calculateMatch_Inl:
  assumes "calculateMatch env emb seeker a cs v = ((a', e'), Inl e)"
  shows "a' = a \<and> e' = emb \<and> (\<forall>ns. inferNeededSkills seeker \<noteq> SkillArray ns)"
proof -
  obtain st r where loop: "criteriaLoop env seeker
      \<lparr>candidate = a, totalScore = Num 0, totalWeight = 0, reasonsSoFar = [], matchTypesSoFar = []\<rparr> cs
      = (st, r)" by (cases "criteriaLoop env seeker
      \<lparr>candidate = a, totalScore = Num 0, totalWeight = 0, reasonsSoFar = [], matchTypesSoFar = []\<rparr> cs")
  with assms obtain e0 where r: "r = Some e0" and res: "a' = candidate st" "e' = emb"
    by (cases r) (auto simp: calculateMatch_def Let_def split: prod.splits)
  from loop r have na: "\<forall>ns. inferNeededSkills seeker \<noteq> SkillArray ns"
    using criteriaLoop_Some by blast
  from criteriaLoop_candidate [OF na loop] res na show ?thesis by simp
qed

lemma calculateMatch_no_array_unchanged:
  assumes "\<forall>ns. inferNeededSkills seeker \<noteq> SkillArray ns"
    and "calculateMatch env emb seeker a cs v = ((a', e'), r)"
  shows "a' = a"
proof -
  obtain st r0 where loop: "criteriaLoop env seeker
      \<lparr>candidate = a, totalScore = Num 0, totalWeight = 0, reasonsSoFar = [], matchTypesSoFar = []\<rparr> cs
      = (st, r0)" by (cases "criteriaLoop env seeker
      \<lparr>candidate = a, totalScore = Num 0, totalWeight = 0, reasonsSoFar = [], matchTypesSoFar = []\<rparr> cs")
  with assms(2) have "a' = candidate st"
    by (cases r0) (auto simp: calculateMatch_def Let_def split: prod.splits)
  with criteriaLoop_candidate [OF assms(1) loop] show ?thesis by simp
qed

lemma matchLoop_Inl:
  "matchLoop env seeker cs v pool (visited, emb, ms) = ((pool', e'), Inl e) \<Longrightarrow>
   pool' = visited @ pool \<and> (\<forall>ns. inferNeededSkills seeker \<noteq> SkillArray ns)"
proof (induction pool arbitrary: visited emb ms)
  case Nil
  then show ?case by simp
next
  case (Cons a pool)
  obtain a1 e1 r where cm: "calculateMatch env emb seeker a cs v = ((a1, e1), r)"
    by (cases "calculateMatch env emb seeker a cs v") auto
  show ?case
  proof (cases r)
    case (Inl e0)
    with cm Cons.prems calculateMatch_Inl [of env emb seeker a cs v a1 e1 e0]
    show ?thesis by simp
  next
    case (Inr m)
    with cm Cons.prems have rec: "matchLoop env seeker cs v pool
        (visited @ [a1], e1, if js_gt (score m) (Num 0.3) then ms @ [m] else ms) = ((pool', e'), Inl e)"
      by simp
    from Cons.IH [OF rec] have p: "pool' = (visited @ [a1]) @ pool"
      and na: "\<forall>ns. inferNeededSkills seeker \<noteq> SkillArray ns" by simp_all
    from calculateMatch_no_array_unchanged [OF na cm] p na show ?thesis by simp
  qed
qed

subsection \<open>What the loop returns\<close>

lemma criterionStep_fields:
  assumes "criterionStep env seeker st c = Inr st'"
  shows "(candidate st')\<lparr>skills := []\<rparr> = (candidate st)\<lparr>skills := []\<rparr>"
proof (cases "ctype c")
  case skill_complement
  with assms show ?thesis
    by (auto simp: criterionStep_def Let_def addScore_def pushReason_def
             split: sum.splits if_splits prod.splits)
next
  case career_similarity
  with assms show ?thesis
    by (auto simp: criterionStep_def Let_def addScore_def pushReason_def split: if_splits)
next
  case geographic_proximity
  with assms show ?thesis
    by (auto simp: criterionStep_def Let_def addScore_def pushReason_def split: if_splits)
next
  case mentorship_fit
  with assms show ?thesis
    by (auto simp: criterionStep_def Let_def addScore_def pushReason_def split: if_splits)
qed

lemma criteriaLoop_fields:
  "criteriaLoop env seeker st cs = (st', r) \<Longrightarrow>
   (candidate st')\<lparr>skills := []\<rparr> = (candidate st)\<lparr>skills := []\<rparr>"
proof (induction cs arbitrary: st)
  case Nil
  then show ?case by simp
next
  case (Cons c cs)
  show ?case
  proof (cases "criterionStep env seeker st c")
    case (Inl e')
    with Cons.prems show ?thesis by simp
  next
    case (Inr st1)
    with Cons.prems have "criteriaLoop env seeker st1 cs = (st', r)" by simp
    then have "(candidate st')\<lparr>skills := []\<rparr> = (candidate st1)\<lparr>skills := []\<rparr>" by (rule Cons.IH)
    with criterionStep_fields [OF Inr] show ?thesis by simp
  qed
qed

lemma calculateMatch_Inr:
  assumes "calculateMatch env emb seeker a cs v = ((a', e'), Inr m)"
  shows "alumni m = a' \<and> a'\<lparr>skills := []\<rparr> = a\<lparr>skills := []\<rparr>"
proof -
  obtain st r where loop: "criteriaLoop env seeker
      \<lparr>candidate = a, totalScore = Num 0, totalWeight = 0, reasonsSoFar = [], matchTypesSoFar = []\<rparr> cs
      = (st, r)" by (cases "criteriaLoop env seeker
      \<lparr>candidate = a, totalScore = Num 0, totalWeight = 0, reasonsSoFar = [], matchTypesSoFar = []\<rparr> cs")
  with assms have "alumni m = a'" "a' = candidate st"
    by (cases r; auto simp: calculateMatch_def Let_def split: prod.splits)+
  with criteriaLoop_fields [OF loop] show ?thesis by simp
qed

lemma matchLoop_Inr:
  "matchLoop env seeker cs v pool (visited, emb, ms) = ((pool', e'), Inr ms') \<Longrightarrow>
   \<exists>new rest. ms' = ms @ new \<and> pool' = visited @ rest \<and>
     subseq (map alumni new) rest \<and>
     (\<forall>m \<in> set new. js_gt (score m) (Num 0.3)) \<and>
     map (\<lambda>a. a\<lparr>skills := []\<rparr>) rest = map (\<lambda>a. a\<lparr>skills := []\<rparr>) pool"
proof (induction pool arbitrary: visited emb ms)
  case Nil
  then have "ms' = ms @ [] \<and> pool' = visited @ [] \<and> subseq (map alumni []) []" by simp
  then show ?case by fastforce
next
  case (Cons a pool)
  obtain a1 e1 r where cm: "calculateMatch env emb seeker a cs v = ((a1, e1), r)"
    by (cases "calculateMatch env emb seeker a cs v") auto
  show ?case
  proof (cases r)
    case (Inl e0)
    with cm Cons.prems show ?thesis by simp
  next
    case (Inr m)
    let ?ms = "if js_gt (score m) (Num 0.3) then ms @ [m] else ms"
    from Inr cm Cons.prems have rec: "matchLoop env seeker cs v pool
        (visited @ [a1], e1, ?ms) = ((pool', e'), Inr ms')"
      by simp
    from Cons.IH [OF rec] obtain new rest where
      n1: "ms' = ?ms @ new" and n2: "pool' = (visited @ [a1]) @ rest"
      and n3: "subseq (map alumni new) rest"
      and n4: "\<forall>m \<in> set new. js_gt (score m) (Num 0.3)"
      and n5: "map (\<lambda>a. a\<lparr>skills := []\<rparr>) rest = map (\<lambda>a. a\<lparr>skills := []\<rparr>) pool"
      by blast
    from calculateMatch_Inr [OF cm [unfolded Inr]]
    have al: "alumni m = a1" and fl: "a1\<lparr>skills := []\<rparr> = a\<lparr>skills := []\<rparr>" by simp_all
    let ?new = "if js_gt (score m) (Num 0.3) then m # new else new"
    have "ms' = ms @ ?new" using n1 by simp
    moreover have "pool' = visited @ (a1 # rest)" using n2 by simp
    moreover have "subseq (map alumni ?new) (a1 # rest)"
      using n3 al by auto
    moreover have "\<forall>m \<in> set ?new. js_gt (score m) (Num 0.3)" using n4 by simp
    moreover have "map (\<lambda>a. a\<lparr>skills := []\<rparr>) (a1 # rest) = map (\<lambda>a. a\<lparr>skills := []\<rparr>) (a # pool)"
      using n5 fl by simp
    ultimately show ?thesis by blast
  qed
qed

lemma tryFindMatches_Inr:
  assumes "tryFindMatches env emb seeker pool cs = ((pool', e'), Inr ms)"
  shows "subseq (map alumni ms) pool' \<and> (\<forall>m \<in> set ms. js_gt (score m) (Num 0.3)) \<and>
         map (\<lambda>a. a\<lparr>skills := []\<rparr>) pool' = map (\<lambda>a. a\<lparr>skills := []\<rparr>) pool"
  using matchLoop_Inr [of env seeker cs "generateProfileEmbedding env seeker" pool "[]" emb "[]" pool' e' ms]
    assms
  by (auto simp: tryFindMatches_def Let_def)

lemma tryFindMatches_Inl:
  assumes "tryFindMatches env emb seeker pool cs = ((pool', e'), Inl e)"
  shows "pool' = pool \<and> (\<forall>ns. inferNeededSkills seeker \<noteq> SkillArray ns)"
  using matchLoop_Inl [of env seeker cs "generateProfileEmbedding env seeker" pool "[]" emb "[]" pool' e' e]
    assms
  by (simp add: tryFindMatches_def Let_def)

lemma tryFindMatches_array:
  assumes "inferNeededSkills seeker = SkillArray ns"
  shows "\<exists>pool' e' ms. tryFindMatches env emb seeker pool cs = ((pool', e'), Inr ms)"
  using matchLoop_array [OF assms] by (simp add: tryFindMatches_def Let_def)

lemma length_getFallbackMatches:
  "length (getFallbackMatches env pool l) = length (slice0 pool l)"
  by (simp add: getFallbackMatches_def)

lemma alumni_getFallbackMatches:
  "map alumni (getFallbackMatches env pool l) = slice0 pool l"
proof -
  have "map (alumni \<circ> (\<lambda>(i, a). \<lparr>alumni = a, score = Num (0.5 + mathRandom env i * 0.3),
             reasons = [''Profile compatibility'', ''Shared academic background''],
             matchTypes = [\<lparr>ctype = career_similarity, weight = 1.0\<rparr>],
             aiInsights = ''Good potential for professional networking and career insights.''\<rparr>)) (enumerate 0 xs) = map snd (enumerate 0 xs)" for xs :: "AlumniProfile list"
    by (rule map_cong) auto
  then show ?thesis by (simp add: getFallbackMatches_def)
qed

lemma getFallbackMatches_member:
  assumes "m \<in> set (getFallbackMatches env pool l)"
  shows "\<exists>i. score m = Num (1 / 2 + mathRandom env i * (3 / 10)) \<and>
             reasons m = [''Profile compatibility'', ''Shared academic background''] \<and>
             matchTypes m = [\<lparr>ctype = career_similarity, weight = 1\<rparr>] \<and>
             aiInsights m = ''Good potential for professional networking and career insights.''"
  using assms by (auto simp: getFallbackMatches_def)

subsection \<open>An engine whose embedding calls fail\<close>

text \<open>
  When every call of the embedding service throws, \<open>generateProfileEmbedding\<close>
  catches the exception and returns the mock embedding of the text \<open>fallback\<close> for
  every profile, so all cosines are 1.
\<close>

lemma sum_list_map2_self: "sum_list (map2 (*) v v) = sum_list (map (\<lambda>x. x * x) (v :: real list))"
  by (induction v) simp_all

lemma calculateCosineSimilarity_self:
  assumes "\<exists>x \<in> set v. x \<noteq> 0"
  shows "calculateCosineSimilarity v v = Num 1"
proof -
  let ?n = "sum_list (map (\<lambda>x. x * x) v)"
  have "?n \<noteq> 0" using assms by (simp add: sum_squares_zero)
  moreover have "0 \<le> ?n" by (rule sum_squares_nonneg)
  ultimately have pos: "0 < ?n" by simp
  then have "sqrt ?n * sqrt ?n = ?n" by simp
  with pos show ?thesis
    by (simp add: calculateCosineSimilarity_def cosineLoop_sums sum_list_map2_self)
qed

lemma fallback_embedding_nonzero: "\<exists>x \<in> set (getMockEmbedding ''fallback''). x \<noteq> 0"
proof -
  have "getMockEmbedding ''fallback'' ! 0 = - 69 / 500"
    using getMockEmbedding_nth [of 0 "''fallback''"] by (simp add: simpleHash_fallback)
  moreover have "getMockEmbedding ''fallback'' ! 0 \<in> set (getMockEmbedding ''fallback'')"
    by (rule nth_mem) (simp add: getMockEmbedding_length)
  ultimately show ?thesis by (metis divide_eq_0_iff neg_equal_0_iff_equal zero_neq_numeral)
qed

lemma fallback_cosine:
  "calculateCosineSimilarity (getMockEmbedding ''fallback'') (getMockEmbedding ''fallback'') = Num 1"
  by (rule calculateCosineSimilarity_self [OF fallback_embedding_nonzero])

lemma offline_generateProfileEmbedding:
  "generateProfileEmbedding offlineEnvironment p = getMockEmbedding ''fallback''"
  by (simp add: generateProfileEmbedding_def offlineEnvironment_def Let_def)

lemma offline_getAlumniEmbedding:
  "emb (''alumni_'' @ profileId a) = None \<Longrightarrow>
   getAlumniEmbedding offlineEnvironment emb a =
     (getMockEmbedding ''fallback'', emb(''alumni_'' @ profileId a \<mapsto> getMockEmbedding ''fallback''))"
  by (simp add: getAlumniEmbedding_def offline_generateProfileEmbedding Let_def)

lemma offline_insightText:
  "insightText offlineEnvironment p a s = ''Great potential for career growth and networking.''"
  by (simp add: offlineEnvironment_def)

lemma offline_calculateMatch_no_criteria:
  assumes "emb (''alumni_'' @ profileId a) = None"
  shows "calculateMatch offlineEnvironment emb seeker a [] (getMockEmbedding ''fallback'') =
     ((a, emb(''alumni_'' @ profileId a \<mapsto> getMockEmbedding ''fallback'')),
      Inr \<lparr>alumni = a, score = Num 1, reasons = [], matchTypes = [],
           aiInsights = ''Great potential for career growth and networking.''\<rparr>)"
  using assms
  by (simp add: calculateMatch_def offline_getAlumniEmbedding fallback_cosine
      offline_insightText Let_def)

lemma example_ids:
  "profileId exampleAlumni = ''alumni-1''" "profileId secondAlumni = ''alumni-0''"
  by (simp_all add: exampleAlumni_def secondAlumni_def)

subsection \<open>Length, threshold and order of the result\<close>

lemma sorted_by_score:
  fixes key :: "'a \<Rightarrow> jsnum"
  assumes "\<forall>x \<in> set xs. key x \<noteq> NaN"
  shows "sorted_wrt (\<lambda>a b. \<not> js_gt (key b) (key a))
           (sortBy (\<lambda>a b. js_gt (js_sub (key b) (key a)) (Num 0)) xs)"
proof -
  let ?after = "\<lambda>a b. js_gt (js_sub (key b) (key a)) (Num 0)"
  have eq: "?after x y = js_gt (key y) (key x)" if "x \<in> set xs" "y \<in> set xs" for x y
    using that assms by (simp add: js_gt_sub)
  have a1: "\<forall>x \<in> set xs. \<forall>y \<in> set xs. ?after x y \<longrightarrow> \<not> ?after y x"
    using eq js_gt_asym by blast
  have a2: "\<forall>x \<in> set xs. \<forall>y \<in> set xs. \<forall>z \<in> set xs.
              \<not> ?after x y \<longrightarrow> \<not> ?after y z \<longrightarrow> \<not> ?after x z"
  proof (intro ballI impI)
    fix x y z
    assume m: "x \<in> set xs" "y \<in> set xs" "z \<in> set xs"
      and n: "\<not> ?after x y" "\<not> ?after y z"
    from m n eq have "\<not> js_gt (key y) (key x)" "\<not> js_gt (key z) (key y)" by blast+
    moreover from m assms have "key x \<noteq> NaN" "key y \<noteq> NaN" "key z \<noteq> NaN" by blast+
    ultimately have "\<not> js_gt (key z) (key x)" by (rule js_gt_negtrans [rotated 3])
    with eq m show "\<not> ?after x z" by blast
  qed
  have s: "sorted_wrt (\<lambda>a b. \<not> ?after a b) (sortBy ?after xs)"
    by (rule sorted_sortBy [OF a1 a2])
  show ?thesis
  proof (rule sorted_wrt_mono_rel [OF _ s])
    fix x y
    assume "x \<in> set (sortBy ?after xs)" "y \<in> set (sortBy ?after xs)" "\<not> ?after x y"
    with eq show "\<not> js_gt (key y) (key x)" by (simp add: set_sortBy)
  qed
qed

lemma stable_by_score:
  fixes key :: "'a \<Rightarrow> jsnum"
  shows "filter (\<lambda>m. key m = s) (sortBy (\<lambda>a b. js_gt (js_sub (key b) (key a)) (Num 0)) xs) =
         filter (\<lambda>m. key m = s) xs"
  by (rule filter_sortBy) (simp add: js_sub_self_not_gt)

lemma findMatches_Inr:
  assumes "tryFindMatches env emb seeker pool (criteriaOrDefault crit) = ((pool', e'), Inr ms)"
  shows "findMatches env emb seeker pool crit lopt =
           (slice0 (sortBy (\<lambda>a b. js_gt (js_sub (score b) (score a)) (Num 0)) ms) (limitOrDefault lopt),
            pool', e')"
  using assms by (simp add: findMatches_def)

lemma findMatches_Inl:
  assumes "tryFindMatches env emb seeker pool (criteriaOrDefault crit) = ((pool', e'), Inl e)"
  shows "findMatches env emb seeker pool crit lopt =
           (getFallbackMatches env pool (limitOrDefault lopt), pool, e')"
  using assms tryFindMatches_Inl [OF assms] by (simp add: findMatches_def)

lemma tryFindMatches_cases:
  obtains (returns) pool' e' ms where
      "tryFindMatches env emb seeker pool cs = ((pool', e'), Inr ms)"
  | (throws) pool' e' e where
      "tryFindMatches env emb seeker pool cs = ((pool', e'), Inl e)"
proof (cases "tryFindMatches env emb seeker pool cs")
  case (Pair st r)
  then show ?thesis
    by (cases st; cases r) (auto intro: returns throws)
qed

lemma length_findMatches:
  assumes "0 \<le> limitOrDefault lopt"
  shows "length (fst (findMatches env emb seeker pool crit lopt)) \<le> nat (limitOrDefault lopt)"
proof (cases rule: tryFindMatches_cases [of env emb seeker pool "criteriaOrDefault crit"])
  case (returns pool' e' ms)
  from findMatches_Inr [OF this] length_slice0 [OF assms] show ?thesis by simp
next
  case (throws pool' e' e)
  from findMatches_Inl [OF this] length_slice0 [OF assms] show ?thesis
    by (simp add: length_getFallbackMatches)
qed

lemma threshold_findMatches:
  assumes "\<forall>i. 0 \<le> mathRandom env i"
    and "m \<in> set (fst (findMatches env emb seeker pool crit lopt))"
  shows "js_gt (score m) (Num (3 / 10))"
proof (cases rule: tryFindMatches_cases [of env emb seeker pool "criteriaOrDefault crit"])
  case (returns pool' e' ms)
  from findMatches_Inr [OF this] assms(2)
  have "m \<in> set (sortBy (\<lambda>a b. js_gt (js_sub (score b) (score a)) (Num 0)) ms)"
    using set_slice0 by fastforce
  then have "m \<in> set ms" by (simp add: set_sortBy)
  with tryFindMatches_Inr [OF returns] show ?thesis by simp
next
  case (throws pool' e' e)
  from findMatches_Inl [OF this] assms(2)
  have "m \<in> set (getFallbackMatches env pool (limitOrDefault lopt))" by simp
  from getFallbackMatches_member [OF this] obtain i where
    "score m = Num (1 / 2 + mathRandom env i * (3 / 10))" by blast
  moreover have "0 \<le> mathRandom env i" using assms(1) by simp
  ultimately show ?thesis by simp
qed

lemma POST_Matches:
  assumes "studentProfile body = Some student" and "s_name student \<noteq> []"
  shows "POST create body =
     Matches (slice0
       (sortBy (\<lambda>a b. js_gt (js_sub (matchScore b) (matchScore a)) (Num 0))
          (map (\<lambda>a. \<lparr>scoredAlumni = a,
                      matchScore = calculateMatchScore create student a (bodyCriteria body)\<rparr>)
               mockAlumni))
       (bodyLimit body))"
  using assms by (simp add: POST_def Let_def)

lemma POST_cases:
  assumes "POST create body = Matches ms"
  obtains student where "studentProfile body = Some student" and "s_name student \<noteq> []"
  using assms by (auto simp: POST_def Let_def split: option.splits if_splits)

lemma length_POST:
  assumes "POST create body = Matches ms"
  shows "length ms = length (slice0 mockAlumni (bodyLimit body))"
proof -
  from assms obtain student where "studentProfile body = Some student" "s_name student \<noteq> []"
    by (rule POST_cases)
  from POST_Matches [OF this, of create] assms show ?thesis
    by (auto simp: slice0_def length_sortBy)
qed

lemma length_mockAlumni: "length mockAlumni = 5"
  by (simp add: mockAlumni_def)

subsection \<open>The limit, the threshold and the order\<close>

lemma route_example_values:
  "calculateSimpleTextSimilarity ''History '' ''Senior Software Engineer Technology'' = 0"
  "calculateSimpleTextSimilarity ''History '' ''Product Manager Technology'' = 0"
  "calculateSimpleTextSimilarity ''History '' ''Research Scientist Healthcare'' = 0"
  "calculateSimpleTextSimilarity ''History '' ''Startup Founder Entrepreneurship'' = 0"
  "calculateSimpleTextSimilarity ''History '' ''UX Design Lead Technology'' = 0"
  "calculateSkillsMatch [] [''JavaScript'', ''Python'', ''Machine Learning'', ''Cloud Architecture''] = 12 / 25"
  "calculateSkillsMatch [] [''Product Strategy'', ''Data Analysis'', ''User Research'', ''Agile''] = 12 / 25"
  "calculateSkillsMatch [] [''Biomedical Engineering'', ''Data Science'', ''Research'', ''Publications''] = 12 / 25"
  "calculateSkillsMatch [] [''Leadership'', ''Business Strategy'', ''Fundraising'', ''Product Development''] = 12 / 25"
  "calculateSkillsMatch [] [''User Experience'', ''Design Systems'', ''Prototyping'', ''User Research''] = 12 / 25"
  "route_calculateGeographicProximity ''Paris, France'' ''San Francisco, CA'' = 1 / 5"
  "route_calculateGeographicProximity ''Paris, France'' ''Seattle, WA'' = 1 / 5"
  "route_calculateGeographicProximity ''Paris, France'' ''Palo Alto, CA'' = 1 / 5"
  "route_calculateGeographicProximity ''Paris, France'' ''Austin, TX'' = 1 / 5"
  "route_calculateGeographicProximity ''Paris, France'' ''Cupertino, CA'' = 1 / 5"
  by code_simp+

lemma route_example_scores:
  "map (\<lambda>a. calculateMatchScore Map.empty exampleRouteStudent a
          [\<lparr>ctype = career_similarity, weight = 0.3\<rparr>, \<lparr>ctype = skill_complement, weight = 0.25\<rparr>,
           \<lparr>ctype = mentorship_fit, weight = 0.25\<rparr>, \<lparr>ctype = geographic_proximity, weight = 0.2\<rparr>])
       mockAlumni = [Num (4 / 25), Num (4 / 25), Num (4 / 25), Num (4 / 25), Num (4 / 25)]"
  by (simp add: mockAlumni_def exampleRouteStudent_def calculateMatchScore_def criterionScore_def
      calculateSemanticSimilarity_def route_example_values js_min_def Let_def)

text \<open>
  Claim C2, as stated, fails on the match route, which has no admission threshold: a
  request that leaves criteria and limit to their defaults, for a history student in
  Paris with no skills, is answered with all five alumni, each with the score 0.16.
\<close>

theorem route_no_threshold_counterexample:
  "responseScores (POST Map.empty exampleRequest) =
     [Num (4 / 25), Num (4 / 25), Num (4 / 25), Num (4 / 25), Num (4 / 25)] \<and>
   \<not> js_gt (Num (4 / 25)) (Num (3 / 10))"
proof -
  have "s_name exampleRouteStudent \<noteq> []" by (simp add: exampleRouteStudent_def)
  moreover have "length mockAlumni = 5" by (rule length_mockAlumni)
  ultimately have "responseScores (POST Map.empty exampleRequest) =
      map matchScore (sortBy (\<lambda>a b. js_gt (js_sub (matchScore b) (matchScore a)) (Num 0))
        (map (\<lambda>a. \<lparr>scoredAlumni = a, matchScore = calculateMatchScore Map.empty exampleRouteStudent a
          [\<lparr>ctype = career_similarity, weight = 0.3\<rparr>, \<lparr>ctype = skill_complement, weight = 0.25\<rparr>,
           \<lparr>ctype = mentorship_fit, weight = 0.25\<rparr>, \<lparr>ctype = geographic_proximity, weight = 0.2\<rparr>]\<rparr>)
         mockAlumni))"
    by (simp add: POST_def exampleRequest_def responseScores_def bodyCriteria_def bodyLimit_def
        slice0_def length_sortBy Let_def)
  also have "\<dots> = [Num (4 / 25), Num (4 / 25), Num (4 / 25), Num (4 / 25), Num (4 / 25)]"
    using route_example_scores
    by (simp add: mockAlumni_def sortBy_def js_sub_def)
  finally show ?thesis by simp
qed


lemma slice0_negative: "n < 0 \<Longrightarrow> slice0 xs n = take (length xs - nat (- n)) xs"
proof -
  assume n: "n < 0"
  then have "nat (int (length xs) + n) = length xs - nat (- n)" by linarith
  with n show ?thesis by (simp add: slice0_def)
qed

lemma slice0_nonnegative: "0 \<le> n \<Longrightarrow> slice0 xs n = take (nat n) xs"
  by (simp add: slice0_def)

lemma bodyLimit_Some: "requestLimit body = Some n \<Longrightarrow> bodyLimit body = n"
  by (simp add: bodyLimit_def)

text \<open>
  Claim C2, amended. For a limit that is not negative (10 when the caller gives none)
  \<open>findMatches\<close> returns at most that many matches, the first \<open>limit\<close> of the
  admitted matches in score order, and every match it returns has a score strictly
  above 0.3 (on the fallback path because \<open>Math.random()\<close> is never negative). The
  match route scores all five alumni, sorts them and returns the first \<open>limit\<close> of
  them, five when there is no limit, whatever their scores. A negative limit \<open>-k\<close>
  does not bound the size: \<open>slice(0, limit)\<close> then drops the last \<open>k\<close> entries, of
  the sorted matches, of the pool on the fallback path, and of the five sorted alumni in
  the route.
\<close>

theorem ranking_limit_threshold:
  "(0 \<le> limitOrDefault lopt \<longrightarrow>
      length (fst (findMatches env emb seeker pool crit lopt)) \<le> nat (limitOrDefault lopt)) \<and>
   limitOrDefault None = 10 \<and>
   ((\<forall>i. 0 \<le> mathRandom env i) \<longrightarrow>
      (\<forall>m \<in> set (fst (findMatches env emb seeker pool crit lopt)). js_gt (score m) (Num (3 / 10)))) \<and>
   (\<forall>ms. POST create body = Matches ms \<longrightarrow>
      (requestLimit body = None \<longrightarrow> length ms = 5) \<and>
      (\<forall>n. requestLimit body = Some n \<and> 0 \<le> n \<longrightarrow> length ms = min (nat n) 5)) \<and>
   (\<forall>pool' e' ms. tryFindMatches env emb seeker pool (criteriaOrDefault crit) = ((pool', e'), Inr ms) \<longrightarrow>
      (0 \<le> limitOrDefault lopt \<longrightarrow>
         fst (findMatches env emb seeker pool crit lopt) =
           take (nat (limitOrDefault lopt))
             (sortBy (\<lambda>a b. js_gt (js_sub (score b) (score a)) (Num 0)) ms)) \<and>
      (limitOrDefault lopt < 0 \<longrightarrow>
         fst (findMatches env emb seeker pool crit lopt) =
           take (length ms - nat (- limitOrDefault lopt))
             (sortBy (\<lambda>a b. js_gt (js_sub (score b) (score a)) (Num 0)) ms))) \<and>
   (\<forall>pool' e' e. tryFindMatches env emb seeker pool (criteriaOrDefault crit) = ((pool', e'), Inl e) \<and>
        limitOrDefault lopt < 0 \<longrightarrow>
      map alumni (fst (findMatches env emb seeker pool crit lopt)) =
        take (length pool - nat (- limitOrDefault lopt)) pool) \<and>
   (\<forall>student. studentProfile body = Some student \<and> s_name student \<noteq> [] \<longrightarrow>
      (requestLimit body = None \<longrightarrow>
         POST create body =
           Matches (sortBy (\<lambda>a b. js_gt (js_sub (matchScore b) (matchScore a)) (Num 0))
             (map (\<lambda>a. \<lparr>scoredAlumni = a,
                         matchScore = calculateMatchScore create student a (bodyCriteria body)\<rparr>)
                  mockAlumni))) \<and>
      (\<forall>n. requestLimit body = Some n \<and> 0 \<le> n \<longrightarrow>
         POST create body =
           Matches (take (nat n)
             (sortBy (\<lambda>a b. js_gt (js_sub (matchScore b) (matchScore a)) (Num 0))
               (map (\<lambda>a. \<lparr>scoredAlumni = a,
                           matchScore = calculateMatchScore create student a (bodyCriteria body)\<rparr>)
                    mockAlumni)))) \<and>
      (\<forall>n. requestLimit body = Some n \<and> n < 0 \<longrightarrow>
         POST create body =
           Matches (take (5 - nat (- n))
             (sortBy (\<lambda>a b. js_gt (js_sub (matchScore b) (matchScore a)) (Num 0))
               (map (\<lambda>a. \<lparr>scoredAlumni = a,
                           matchScore = calculateMatchScore create student a (bodyCriteria body)\<rparr>)
                    mockAlumni)))))"
proof -
  let ?cmp = "\<lambda>a b. js_gt (js_sub (score b) (score a)) (Num 0)"
  let ?rcmp = "\<lambda>a b. js_gt (js_sub (matchScore b) (matchScore a)) (Num 0)"
  have c1: "length ms = 5" if "POST create body = Matches ms" "requestLimit body = None" for ms
    using length_POST [OF that(1)] that(2) by (simp add: slice0_def bodyLimit_def length_mockAlumni)
  have c2: "length ms = min (nat n) 5"
    if "POST create body = Matches ms" "requestLimit body = Some n" "0 \<le> n" for ms n
    using length_POST [OF that(1)] that(2,3)
    by (simp add: slice0_def bodyLimit_def length_mockAlumni min_def)
  have c3: "fst (findMatches env emb seeker pool crit lopt) =
           take (nat (limitOrDefault lopt)) (sortBy ?cmp ms)"
    if "tryFindMatches env emb seeker pool (criteriaOrDefault crit) = ((pool', e'), Inr ms)"
      "0 \<le> limitOrDefault lopt" for pool' e' ms
    by (simp add: findMatches_Inr [OF that(1)] slice0_nonnegative [OF that(2)])
  have c4: "fst (findMatches env emb seeker pool crit lopt) =
           take (length ms - nat (- limitOrDefault lopt)) (sortBy ?cmp ms)"
    if "tryFindMatches env emb seeker pool (criteriaOrDefault crit) = ((pool', e'), Inr ms)"
      "limitOrDefault lopt < 0" for pool' e' ms
    by (simp add: findMatches_Inr [OF that(1)] slice0_negative [OF that(2)] length_sortBy)
  have c5: "map alumni (fst (findMatches env emb seeker pool crit lopt)) =
        take (length pool - nat (- limitOrDefault lopt)) pool"
    if "tryFindMatches env emb seeker pool (criteriaOrDefault crit) = ((pool', e'), Inl e)"
      "limitOrDefault lopt < 0" for pool' e' e
    by (simp add: findMatches_Inl [OF that(1)] alumni_getFallbackMatches slice0_negative [OF that(2)])
  let ?all = "\<lambda>student. map (\<lambda>a. \<lparr>scoredAlumni = a,
                         matchScore = calculateMatchScore create student a (bodyCriteria body)\<rparr>)
                  mockAlumni"
  have c6: "POST create body = Matches (sortBy ?rcmp (?all student))"
    if "studentProfile body = Some student" "s_name student \<noteq> []" "requestLimit body = None"
    for student
    using POST_Matches [OF that(1,2), of create] that(3)
    by (simp add: bodyLimit_def slice0_def length_sortBy length_mockAlumni)
  have c7: "POST create body = Matches (take (nat n) (sortBy ?rcmp (?all student)))"
    if "studentProfile body = Some student" "s_name student \<noteq> []" "requestLimit body = Some n"
      "0 \<le> n" for student n
    using POST_Matches [OF that(1,2), of create] that(3,4)
    by (simp add: bodyLimit_def slice0_def)
  have c8: "POST create body = Matches (take (5 - nat (- n)) (sortBy ?rcmp (?all student)))"
    if "studentProfile body = Some student" "s_name student \<noteq> []" "requestLimit body = Some n"
      "n < 0" for student n
    using POST_Matches [OF that(1,2), of create] that(3)
    by (simp add: bodyLimit_def slice0_negative [OF that(4)] length_sortBy length_mockAlumni)
  have c9: "limitOrDefault None = 10" by (simp add: limitOrDefault_def)
  show ?thesis
    apply (intro conjI)
    subgoal using length_findMatches [of lopt env emb seeker pool crit] by blast
    subgoal by (rule c9)
    subgoal using threshold_findMatches [of env _ emb seeker pool crit lopt] by blast
    subgoal using c1 c2 by blast
    subgoal using c3 c4 by blast
    subgoal using c5 by blast
    subgoal using c6 c7 c8 by blast
    done
qed

lemma offline_random: "\<forall>i. 0 \<le> mathRandom offlineEnvironment i"
  by (simp add: offlineEnvironment_def)

lemma offline_two_matches:
  "map score (fst (findMatches offlineEnvironment Map.empty (Student exampleStudent)
            [secondAlumni, exampleAlumni] (Some []) (Some 1))) = [Num 1]"
  by (simp add: findMatches_def tryFindMatches_def criteriaOrDefault_def limitOrDefault_def
      offline_generateProfileEmbedding
      offline_calculateMatch_no_criteria example_ids sortBy_def js_sub_def slice0_def Let_def)

lemma offline_try_two:
  "snd (tryFindMatches offlineEnvironment Map.empty (Student exampleStudent)
         [secondAlumni, exampleAlumni] (criteriaOrDefault (Some []))) =
   Inr [\<lparr>alumni = secondAlumni, score = Num 1, reasons = [], matchTypes = [],
         aiInsights = ''Great potential for career growth and networking.''\<rparr>,
        \<lparr>alumni = exampleAlumni, score = Num 1, reasons = [], matchTypes = [],
         aiInsights = ''Great potential for career growth and networking.''\<rparr>]"
  by (simp add: tryFindMatches_def criteriaOrDefault_def offline_generateProfileEmbedding
      offline_calculateMatch_no_criteria example_ids Let_def)

lemma exampleRequest_student:
  "studentProfile (exampleRequest\<lparr>requestLimit := Some (- 2)\<rparr>) = Some exampleRouteStudent"
  "s_name exampleRouteStudent \<noteq> []"
  "requestLimit (exampleRequest\<lparr>requestLimit := Some (- 2)\<rparr>) = Some (- 2)"
  by (simp_all add: exampleRequest_def exampleRouteStudent_def)

theorem ranking_limit_threshold_witness:
  "length (fst (findMatches offlineEnvironment Map.empty (Student exampleStudent)
            [secondAlumni, exampleAlumni] (Some []) (Some 1))) \<le> 1 \<and>
   map score (fst (findMatches offlineEnvironment Map.empty (Student exampleStudent)
            [secondAlumni, exampleAlumni] (Some []) (Some 1))) = [Num 1] \<and>
   js_gt (Num 1) (Num (3 / 10)) \<and>
   map (\<lambda>m. profileId (alumni m))
     (fst (findMatches offlineEnvironment Map.empty (Student exampleStudent)
            [secondAlumni, exampleAlumni] (Some []) (Some (- 1)))) = [''alumni-0''] \<and>
   length (responseScores (POST Map.empty (exampleRequest\<lparr>requestLimit := Some (- 2)\<rparr>))) = 3"
proof -
  let ?r = "fst (findMatches offlineEnvironment Map.empty (Student exampleStudent)
            [secondAlumni, exampleAlumni] (Some []) (Some 1))"
  let ?body = "exampleRequest\<lparr>requestLimit := Some (- 2)\<rparr>"
  have l: "(0::int) \<le> limitOrDefault (Some 1)" by (simp add: limitOrDefault_def)
  from ranking_limit_threshold [of "Some 1" offlineEnvironment Map.empty "Student exampleStudent"
      "[secondAlumni, exampleAlumni]" "Some []" Map.empty exampleRequest] l offline_random
  have "length ?r \<le> nat (limitOrDefault (Some 1))"
    and t: "\<forall>m \<in> set ?r. js_gt (score m) (Num (3 / 10))" by blast+
  then have w1: "length ?r \<le> 1" by (simp add: limitOrDefault_def)
  from t have "\<forall>s \<in> set (map score ?r). js_gt s (Num (3 / 10))" by simp
  then have w2: "js_gt (Num 1) (Num (3 / 10))" by (simp add: offline_two_matches)
  obtain pool' e' where tf: "tryFindMatches offlineEnvironment Map.empty (Student exampleStudent)
         [secondAlumni, exampleAlumni] (criteriaOrDefault (Some [])) =
       ((pool', e'), Inr [\<lparr>alumni = secondAlumni, score = Num 1, reasons = [], matchTypes = [],
         aiInsights = ''Great potential for career growth and networking.''\<rparr>,
        \<lparr>alumni = exampleAlumni, score = Num 1, reasons = [], matchTypes = [],
         aiInsights = ''Great potential for career growth and networking.''\<rparr>])"
    using offline_try_two by (metis prod.collapse)
  have n: "limitOrDefault (Some (- 1)) < 0" by (simp add: limitOrDefault_def)
  from ranking_limit_threshold [of "Some (- 1)" offlineEnvironment Map.empty "Student exampleStudent"
      "[secondAlumni, exampleAlumni]" "Some []" Map.empty ?body] tf n
  have "fst (findMatches offlineEnvironment Map.empty (Student exampleStudent)
            [secondAlumni, exampleAlumni] (Some []) (Some (- 1))) =
        take (length [\<lparr>alumni = secondAlumni, score = Num 1, reasons = [], matchTypes = [],
         aiInsights = ''Great potential for career growth and networking.''\<rparr>,
        \<lparr>alumni = exampleAlumni, score = Num 1, reasons = [], matchTypes = [],
         aiInsights = ''Great potential for career growth and networking.''\<rparr>] - nat (- limitOrDefault (Some (- 1))))
          (sortBy (\<lambda>a b. js_gt (js_sub (score b) (score a)) (Num 0))
            [\<lparr>alumni = secondAlumni, score = Num 1, reasons = [], matchTypes = [],
         aiInsights = ''Great potential for career growth and networking.''\<rparr>,
        \<lparr>alumni = exampleAlumni, score = Num 1, reasons = [], matchTypes = [],
         aiInsights = ''Great potential for career growth and networking.''\<rparr>])"
    by blast
  then have w3: "map (\<lambda>m. profileId (alumni m))
     (fst (findMatches offlineEnvironment Map.empty (Student exampleStudent)
            [secondAlumni, exampleAlumni] (Some []) (Some (- 1)))) = [''alumni-0'']"
    by (simp add: limitOrDefault_def sortBy_def js_sub_def example_ids)
  from ranking_limit_threshold [of "Some 1" offlineEnvironment Map.empty "Student exampleStudent"
      "[secondAlumni, exampleAlumni]" "Some []" Map.empty ?body] exampleRequest_student
  have "POST Map.empty ?body =
           Matches (take (5 - nat (- (- 2)))
             (sortBy (\<lambda>a b. js_gt (js_sub (matchScore b) (matchScore a)) (Num 0))
               (map (\<lambda>a. \<lparr>scoredAlumni = a,
                           matchScore = calculateMatchScore Map.empty exampleRouteStudent a (bodyCriteria ?body)\<rparr>)
                    mockAlumni)))"
    by simp
  then have w4: "length (responseScores (POST Map.empty ?body)) = 3"
    by (simp add: responseScores_def length_sortBy length_mockAlumni)
  from w1 w2 w3 w4 show ?thesis by (simp add: offline_two_matches)
qed

text \<open>
  Claim C3, as stated, fails: there is no secondary key. Two candidates with the equal
  score 1 come out in the order of the pool, whichever identifier is smaller, so the
  same two candidates in the other pool order come out the other way round.
\<close>

theorem tie_order_counterexample:
  "map score (fst (findMatches offlineEnvironment Map.empty (Student exampleStudent)
            [secondAlumni, exampleAlumni] (Some []) None)) = [Num 1, Num 1] \<and>
   map (\<lambda>m. profileId (alumni m))
     (fst (findMatches offlineEnvironment Map.empty (Student exampleStudent)
            [secondAlumni, exampleAlumni] (Some []) None)) = [''alumni-0'', ''alumni-1''] \<and>
   map (\<lambda>m. profileId (alumni m))
     (fst (findMatches offlineEnvironment Map.empty (Student exampleStudent)
            [exampleAlumni, secondAlumni] (Some []) None)) = [''alumni-1'', ''alumni-0'']"
  by (simp add: findMatches_def tryFindMatches_def criteriaOrDefault_def limitOrDefault_def
      offline_generateProfileEmbedding
      offline_calculateMatch_no_criteria example_ids sortBy_def js_sub_def slice0_def Let_def)

lemma findMatches_sorted:
  assumes "tryFindMatches env emb seeker pool (criteriaOrDefault crit) = ((pool', e'), Inr ms)"
  shows "sorted_wrt (\<lambda>a b. \<not> js_gt (score b) (score a))
           (fst (findMatches env emb seeker pool crit lopt))"
proof -
  have "\<forall>m \<in> set ms. score m \<noteq> NaN"
    using tryFindMatches_Inr [OF assms] js_gt_not_NaN by blast
  then have "sorted_wrt (\<lambda>a b. \<not> js_gt (score b) (score a))
      (sortBy (\<lambda>a b. js_gt (js_sub (score b) (score a)) (Num 0)) ms)"
    by (rule sorted_by_score)
  then show ?thesis
    by (simp add: findMatches_Inr [OF assms] sorted_wrt_slice0)
qed

lemma POST_sorted:
  assumes "studentProfile body = Some student" and "s_name student \<noteq> []"
    and "\<forall>a \<in> set mockAlumni. calculateMatchScore create student a (bodyCriteria body) \<noteq> NaN"
  shows "\<exists>ms. POST create body = Matches ms \<and>
              sorted_wrt (\<lambda>a b. \<not> js_gt (matchScore b) (matchScore a)) ms"
proof -
  let ?all = "map (\<lambda>a. \<lparr>scoredAlumni = a,
                      matchScore = calculateMatchScore create student a (bodyCriteria body)\<rparr>)
               mockAlumni"
  have "\<forall>m \<in> set ?all. matchScore m \<noteq> NaN" using assms(3) by auto
  then have "sorted_wrt (\<lambda>a b. \<not> js_gt (matchScore b) (matchScore a))
      (sortBy (\<lambda>a b. js_gt (js_sub (matchScore b) (matchScore a)) (Num 0)) ?all)"
    by (rule sorted_by_score)
  then show ?thesis
    by (simp add: POST_Matches [OF assms(1,2)] sorted_wrt_slice0)
qed

text \<open>
  Claim C3, amended. When the loop of \<open>findMatches\<close> ends without an exception,
  which it does for every seeker whose department is not an inherited key of
  \<open>careerMap\<close>, the result is the first \<open>limit\<close> entries of the admitted matches
  sorted by score: no entry is followed by one with a greater score, and matches with
  equal scores keep the order in which the loop admitted them, which is the order of the
  candidate pool (the pool is left with the same candidates, up to the order inside
  their skills arrays). The route sorts its five scored alumni in the same way, as long
  as no score is NaN. No identifier enters the order.
\<close>

theorem ranking_sorted_stable:
  "(\<forall>pool' e' ms. tryFindMatches env emb seeker pool (criteriaOrDefault crit) = ((pool', e'), Inr ms) \<longrightarrow>
      fst (findMatches env emb seeker pool crit lopt) =
        slice0 (sortBy (\<lambda>a b. js_gt (js_sub (score b) (score a)) (Num 0)) ms) (limitOrDefault lopt) \<and>
      sorted_wrt (\<lambda>a b. \<not> js_gt (score b) (score a)) (fst (findMatches env emb seeker pool crit lopt)) \<and>
      (\<forall>s. filter (\<lambda>m. score m = s) (sortBy (\<lambda>a b. js_gt (js_sub (score b) (score a)) (Num 0)) ms) =
           filter (\<lambda>m. score m = s) ms) \<and>
      subseq (map alumni ms) pool' \<and>
      map (\<lambda>a. a\<lparr>skills := []\<rparr>) pool' = map (\<lambda>a. a\<lparr>skills := []\<rparr>) pool) \<and>
   (\<forall>ns. inferNeededSkills seeker = SkillArray ns \<longrightarrow>
      (\<exists>pool' e' ms. tryFindMatches env emb seeker pool (criteriaOrDefault crit) = ((pool', e'), Inr ms))) \<and>
   (\<forall>student. studentProfile body = Some student \<and> s_name student \<noteq> [] \<and>
        (\<forall>a \<in> set mockAlumni. calculateMatchScore create student a (bodyCriteria body) \<noteq> NaN) \<longrightarrow>
      (\<exists>ms. POST create body = Matches ms \<and>
            sorted_wrt (\<lambda>a b. \<not> js_gt (matchScore b) (matchScore a)) ms))"
proof (intro conjI allI impI)
  fix pool' e' ms
  assume t: "tryFindMatches env emb seeker pool (criteriaOrDefault crit) = ((pool', e'), Inr ms)"
  show "fst (findMatches env emb seeker pool crit lopt) =
        slice0 (sortBy (\<lambda>a b. js_gt (js_sub (score b) (score a)) (Num 0)) ms) (limitOrDefault lopt)"
    by (simp add: findMatches_Inr [OF t])
  show "sorted_wrt (\<lambda>a b. \<not> js_gt (score b) (score a)) (fst (findMatches env emb seeker pool crit lopt))"
    by (rule findMatches_sorted [OF t])
  show "filter (\<lambda>m. score m = s) (sortBy (\<lambda>a b. js_gt (js_sub (score b) (score a)) (Num 0)) ms) =
           filter (\<lambda>m. score m = s) ms" for s
    by (rule stable_by_score)
  show "subseq (map alumni ms) pool'"
    using tryFindMatches_Inr [OF t] by simp
  show "map (\<lambda>a. a\<lparr>skills := []\<rparr>) pool' = map (\<lambda>a. a\<lparr>skills := []\<rparr>) pool"
    using tryFindMatches_Inr [OF t] by simp
next
  fix ns
  assume "inferNeededSkills seeker = SkillArray ns"
  then show "\<exists>pool' e' ms. tryFindMatches env emb seeker pool (criteriaOrDefault crit) = ((pool', e'), Inr ms)"
    by (rule tryFindMatches_array)
next
  fix student
  assume "studentProfile body = Some student \<and> s_name student \<noteq> [] \<and>
        (\<forall>a \<in> set mockAlumni. calculateMatchScore create student a (bodyCriteria body) \<noteq> NaN)"
  then show "\<exists>ms. POST create body = Matches ms \<and>
            sorted_wrt (\<lambda>a b. \<not> js_gt (matchScore b) (matchScore a)) ms"
    using POST_sorted by blast
qed

subsection \<open>The fallback list\<close>

theorem ranking_sorted_stable_witness:
  "(\<exists>pool' e' ms. tryFindMatches offlineEnvironment Map.empty (Student exampleStudent)
       [secondAlumni, exampleAlumni] (criteriaOrDefault (Some [])) = ((pool', e'), Inr ms)) \<and>
   sorted_wrt (\<lambda>a b. \<not> js_gt (score b) (score a))
     (fst (findMatches offlineEnvironment Map.empty (Student exampleStudent)
            [secondAlumni, exampleAlumni] (Some []) None))"
  using ranking_sorted_stable [of offlineEnvironment Map.empty "Student exampleStudent"
      "[secondAlumni, exampleAlumni]" "Some []" None exampleRequest Map.empty]
    exampleStudent_needs
  by blast

text \<open>
  Claim C10, as stated, fails for its own example: an exception during embedding
  generation never reaches the \<open>catch\<close> block of \<open>findMatches\<close>, because
  \<open>generateProfileEmbedding\<close> catches it and returns the mock embedding of
  \<open>fallback\<close>. With every embedding call throwing, the candidate is ranked in the
  normal way: the score is the cosine 1, outside the interval from 0.5 to 0.8, and the
  list of reasons is empty.
\<close>

theorem embedding_failure_counterexample:
  "embeddingsCreate offlineEnvironment (createProfileText (Student exampleStudent)) = None \<and>
   map score (fst (findMatches offlineEnvironment Map.empty (Student exampleStudent)
            [exampleAlumni] (Some []) None)) = [Num 1] \<and>
   map reasons (fst (findMatches offlineEnvironment Map.empty (Student exampleStudent)
            [exampleAlumni] (Some []) None)) = [[]]"
  by (simp add: findMatches_def tryFindMatches_def criteriaOrDefault_def limitOrDefault_def
      offline_generateProfileEmbedding offlineEnvironment_def [THEN arg_cong, of embeddingsCreate]
      offline_calculateMatch_no_criteria example_ids sortBy_def js_sub_def slice0_def Let_def)

lemma slice0_nonneg: "0 \<le> n \<Longrightarrow> slice0 xs n = take (nat n) xs"
  by (simp add: slice0_def)

text \<open>
  Claim C10, amended. When the loop of \<open>findMatches\<close> throws, which only a seeker
  whose department is an inherited key of \<open>careerMap\<close> brings about (failures of the
  embedding service are caught inside \<open>generateProfileEmbedding\<close> and lead to a normal
  ranking), the call returns the fallback list: for a limit that is not negative the
  first \<open>limit\<close> candidates of the pool in pool order, unchanged, each with a score
  \<open>0.5 + Math.random() * 0.3\<close> in the half-open interval from 0.5 to 0.8, the two
  fixed reasons and the fixed insight, with no threshold and no sorting applied.
\<close>

theorem fallback_on_exception:
  assumes "tryFindMatches env emb seeker pool (criteriaOrDefault crit) = ((pool', e'), Inl e)"
    and "0 \<le> limitOrDefault lopt"
    and "\<forall>i. 0 \<le> mathRandom env i \<and> mathRandom env i < 1"
  shows "fst (findMatches env emb seeker pool crit lopt) =
           getFallbackMatches env pool (limitOrDefault lopt) \<and>
         map alumni (fst (findMatches env emb seeker pool crit lopt)) =
           take (nat (limitOrDefault lopt)) pool \<and>
         (\<forall>m \<in> set (fst (findMatches env emb seeker pool crit lopt)).
            (\<exists>r. score m = Num r \<and> 1 / 2 \<le> r \<and> r < 4 / 5) \<and>
            reasons m = [''Profile compatibility'', ''Shared academic background''] \<and>
            aiInsights m = ''Good potential for professional networking and career insights.'') \<and>
         (\<forall>ns. inferNeededSkills seeker \<noteq> SkillArray ns)"
proof (intro conjI ballI)
  show f: "fst (findMatches env emb seeker pool crit lopt) =
           getFallbackMatches env pool (limitOrDefault lopt)"
    by (simp add: findMatches_Inl [OF assms(1)])
  show "map alumni (fst (findMatches env emb seeker pool crit lopt)) =
           take (nat (limitOrDefault lopt)) pool"
    by (simp add: f alumni_getFallbackMatches slice0_nonneg [OF assms(2)])
  show "\<forall>ns. inferNeededSkills seeker \<noteq> SkillArray ns"
    using tryFindMatches_Inl [OF assms(1)] by simp
next
  fix m
  assume "m \<in> set (fst (findMatches env emb seeker pool crit lopt))"
  then have "m \<in> set (getFallbackMatches env pool (limitOrDefault lopt))"
    by (simp add: findMatches_Inl [OF assms(1)])
  from getFallbackMatches_member [OF this] obtain i where
    s: "score m = Num (1 / 2 + mathRandom env i * (3 / 10))"
    and r: "reasons m = [''Profile compatibility'', ''Shared academic background'']"
    and a: "aiInsights m = ''Good potential for professional networking and career insights.''"
    by blast
  have "0 \<le> mathRandom env i" "mathRandom env i < 1" using assms(3) by simp_all
  then have "1 / 2 \<le> 1 / 2 + mathRandom env i * (3 / 10) \<and> 1 / 2 + mathRandom env i * (3 / 10) < 4 / 5"
    by simp
  with s show "\<exists>r. score m = Num r \<and> 1 / 2 \<le> r \<and> r < 4 / 5" by blast
  show "reasons m = [''Profile compatibility'', ''Shared academic background'']" by (rule r)
  show "aiInsights m = ''Good potential for professional networking and career insights.''" by (rule a)
qed

lemma constructorStudent_career:
  "calculateCareerSimilarity (Student constructorStudent) exampleAlumni = 0"
  by code_simp

lemma constructorStudent_skill:
  "calculateSkillComplement (Student constructorStudent) exampleAlumni = Inl TypeError"
  by code_simp

lemma constructorStudent_throws:
  "tryFindMatches offlineEnvironment Map.empty (Student constructorStudent) [exampleAlumni]
     (criteriaOrDefault None) = (([exampleAlumni], Map.empty), Inl TypeError)"
  by (simp add: tryFindMatches_def criteriaOrDefault_def getDefaultCriteria_def calculateMatch_def
      criterionStep_def constructorStudent_career constructorStudent_skill addScore_def Let_def)

lemma offline_random_range: "\<forall>i. 0 \<le> mathRandom offlineEnvironment i \<and> mathRandom offlineEnvironment i < 1"
  by (simp add: offlineEnvironment_def)

theorem fallback_on_exception_witness:
  "map alumni (fst (findMatches offlineEnvironment Map.empty (Student constructorStudent)
      [exampleAlumni] None None)) = [exampleAlumni] \<and>
   map score (fst (findMatches offlineEnvironment Map.empty (Student constructorStudent)
      [exampleAlumni] None None)) = [Num (1 / 2)]"
proof -
  have l: "0 \<le> limitOrDefault None" by (simp add: limitOrDefault_def)
  from fallback_on_exception [OF constructorStudent_throws l offline_random_range]
  have "fst (findMatches offlineEnvironment Map.empty (Student constructorStudent)
      [exampleAlumni] None None) = getFallbackMatches offlineEnvironment [exampleAlumni] (limitOrDefault None)"
    by blast
  then show ?thesis
    by (simp add: getFallbackMatches_def limitOrDefault_def slice0_def offlineEnvironment_def)
qed

subsection \<open>The range of the scores\<close>

text \<open>The route clamps its score from above, as does \<open>IntelligentMatchingEngine\<close>.\<close>

lemma calculateMatchScore_le_one:
  assumes "calculateMatchScore create student a cs = Num r"
  shows "r \<le> 1"
proof -
  have "js_min t (Num 1) = Num r \<Longrightarrow> r \<le> 1" for t
    by (cases t) (auto simp: js_min_def split: if_splits)
  with assms show ?thesis by (simp add: calculateMatchScore_def Let_def)
qed

lemma repeatedSkillAlumni_skill:
  "calculateSkillComplement (Student exampleStudent) repeatedSkillAlumni = Inr (Num (7 / 5))"
  by code_simp

lemma repeatedSkillAlumni_top:
  "getTopSkills (skills repeatedSkillAlumni) =
     ([''Python'', ''Python'', ''Python''], skills repeatedSkillAlumni)"
  by code_simp

lemma repeatedSkillAlumni_id: "profileId repeatedSkillAlumni = ''alumni-1''"
  by (simp add: repeatedSkillAlumni_def exampleAlumni_def)

lemma repeatedSkillAlumni_match:
  "calculateMatch offlineEnvironment Map.empty (Student exampleStudent) repeatedSkillAlumni
     [\<lparr>ctype = skill_complement, weight = 1\<rparr>] (getMockEmbedding ''fallback'') =
   ((repeatedSkillAlumni, [''alumni_alumni-1'' \<mapsto> getMockEmbedding ''fallback'']),
    Inr \<lparr>alumni = repeatedSkillAlumni, score = Num (32 / 25),
         reasons = [''Complementary skills in Python, Python, Python''],
         matchTypes = [\<lparr>ctype = skill_complement, weight = 1\<rparr>],
         aiInsights = ''Great potential for career growth and networking.''\<rparr>)"
  by (simp add: calculateMatch_def criterionStep_def repeatedSkillAlumni_skill
      repeatedSkillAlumni_top addScore_def pushReason_def offline_getAlumniEmbedding
      repeatedSkillAlumni_id fallback_cosine offline_insightText Let_def)

text \<open>
  Claim C1. Every returned score is to lie between 0 and 1. \<open>calculateMatch\<close>
  returns its blend unclamped, and \<open>calculateSkillComplement\<close> counts a skill that
  the candidate's array names ten times ten times: for the example student and that
  candidate, with skill complementarity as the only criterion and every embedding call
  failing, the complement ratio is 10 / 5, the sub-score 1.4, and \<open>findMatches\<close>
  returns the score 1.4 * 0.7 + 1 * 0.3 = 1.28.
\<close>

theorem score_above_one:
  "map score (fst (findMatches offlineEnvironment Map.empty (Student exampleStudent)
      [repeatedSkillAlumni] (Some [\<lparr>ctype = skill_complement, weight = 1\<rparr>]) None)) = [Num (32 / 25)] \<and>
   js_gt (Num (32 / 25)) (Num 1)"
  by (simp add: findMatches_def tryFindMatches_def criteriaOrDefault_def limitOrDefault_def
      offline_generateProfileEmbedding repeatedSkillAlumni_match sortBy_def slice0_def)

subsection \<open>The blend of rule score and cosine\<close>

lemma length_filter_insertBy:
  "length (filter P (insertBy after x ys)) = length (filter P (x # ys))"
  by (induction ys) auto

lemma length_filter_sortBy:
  "length (filter P (sortBy after xs)) = length (filter P xs)"
proof (induction xs)
  case Nil
  show ?case by (simp add: sortBy_def)
next
  case (Cons x xs)
  have "length (filter P (sortBy after (x # xs))) = length (filter P (x # sortBy after xs))"
    by (simp only: sortBy_Cons length_filter_insertBy)
  with Cons show ?case by simp
qed

lemma sortBy_Nil_iff: "sortBy after xs = [] \<longleftrightarrow> xs = []"
  using length_sortBy [of after xs] by (metis length_0_conv)

lemma calculateSkillComplement_sorted:
  "calculateSkillComplement seeker (a\<lparr>skills := sortBy after (skills a)\<rparr>) =
   calculateSkillComplement seeker a"
  by (cases "inferNeededSkills seeker")
     (simp_all add: calculateSkillComplement_def Let_def set_sortBy length_filter_sortBy
        sortBy_Nil_iff)

lemma subScore_sorted:
  "subScore seeker (a\<lparr>skills := sortBy after (skills a)\<rparr>) k = subScore seeker a k"
proof (cases k)
  case skill_complement
  then show ?thesis by (simp add: subScore_def calculateSkillComplement_sorted)
next
  case career_similarity
  then show ?thesis
    by (cases seeker) (simp_all add: subScore_def calculateCareerSimilarity_def Let_def split: option.splits)
next
  case geographic_proximity
  then show ?thesis
    by (cases seeker) (simp_all add: subScore_def calculateGeographicProximity_def Let_def split: option.splits)
next
  case mentorship_fit
  then show ?thesis
    by (cases seeker) (simp_all add: subScore_def calculateMentorshipFit_def Let_def split: option.splits)
qed

lemma criterionStep_totals:
  assumes "criterionStep env seeker st c = Inr st'"
  shows "totalScore st' =
           js_add (totalScore st) (js_mul (subScore seeker (candidate st) (ctype c)) (Num (weight c))) \<and>
         totalWeight st' = totalWeight st + weight c \<and>
         (\<forall>k. subScore seeker (candidate st') k = subScore seeker (candidate st) k)"
proof (cases "ctype c")
  case skill_complement
  show ?thesis
  proof (cases "calculateSkillComplement seeker (candidate st)")
    case (Inl e)
    with skill_complement assms show ?thesis by (simp add: criterionStep_def)
  next
    case (Inr r)
    show ?thesis
    proof (cases "js_gt r (Num 0.6)")
      case True
      with skill_complement assms Inr
      have "st' = addScore (pushReason (st\<lparr>candidate := (candidate st)\<lparr>skills :=
                sortBy (\<lambda>a b. levelRank (level a) < levelRank (level b)) (skills (candidate st))\<rparr>\<rparr>) c
              (''Complementary skills in '' @ join '', '' (fst (getTopSkills (skills (candidate st)))))) c r"
        by (simp add: criterionStep_def getTopSkills_def Let_def)
      then have "candidate st' = (candidate st)\<lparr>skills :=
                sortBy (\<lambda>a b. levelRank (level a) < levelRank (level b)) (skills (candidate st))\<rparr>"
        and "totalScore st' = js_add (totalScore st) (js_mul r (Num (weight c)))"
        and "totalWeight st' = totalWeight st + weight c"
        by (simp_all add: addScore_def pushReason_def)
      moreover have "subScore seeker (candidate st) (ctype c) = r"
        using skill_complement Inr by (simp add: subScore_def)
      ultimately show ?thesis by (simp add: subScore_sorted)
    next
      case False
      with skill_complement assms Inr have "st' = addScore st c r"
        by (simp add: criterionStep_def Let_def)
      then have "candidate st' = candidate st"
        and "totalScore st' = js_add (totalScore st) (js_mul r (Num (weight c)))"
        and "totalWeight st' = totalWeight st + weight c"
        by (simp_all add: addScore_def)
      moreover have "subScore seeker (candidate st) (ctype c) = r"
        using skill_complement Inr by (simp add: subScore_def)
      ultimately show ?thesis by simp
    qed
  qed
next
  case career_similarity
  with assms have "candidate st' = candidate st"
    and "totalScore st' = js_add (totalScore st)
           (js_mul (Num (calculateCareerSimilarity seeker (candidate st))) (Num (weight c)))"
    and "totalWeight st' = totalWeight st + weight c"
    by (auto simp: criterionStep_def Let_def addScore_def pushReason_def split: if_splits)
  with career_similarity show ?thesis by (simp add: subScore_def)
next
  case geographic_proximity
  with assms have "candidate st' = candidate st"
    and "totalScore st' = js_add (totalScore st)
           (js_mul (Num (calculateGeographicProximity seeker (candidate st))) (Num (weight c)))"
    and "totalWeight st' = totalWeight st + weight c"
    by (auto simp: criterionStep_def Let_def addScore_def pushReason_def split: if_splits)
  with geographic_proximity show ?thesis by (simp add: subScore_def)
next
  case mentorship_fit
  with assms have "candidate st' = candidate st"
    and "totalScore st' = js_add (totalScore st)
           (js_mul (Num (calculateMentorshipFit seeker (candidate st))) (Num (weight c)))"
    and "totalWeight st' = totalWeight st + weight c"
    by (auto simp: criterionStep_def Let_def addScore_def pushReason_def split: if_splits)
  with mentorship_fit show ?thesis by (simp add: subScore_def)
qed

lemma criteriaLoop_totals:
  "criteriaLoop env seeker st cs = (st', None) \<Longrightarrow>
   totalScore st' =
     foldl (\<lambda>total criterion.
              js_add total (js_mul (subScore seeker (candidate st) (ctype criterion)) (Num (weight criterion))))
           (totalScore st) cs \<and>
   totalWeight st' = totalWeight st + sum_list (map weight cs)"
proof (induction cs arbitrary: st)
  case Nil
  then show ?case by simp
next
  case (Cons c cs)
  show ?case
  proof (cases "criterionStep env seeker st c")
    case (Inl e)
    with Cons.prems show ?thesis by simp
  next
    case (Inr st1)
    with Cons.prems have loop: "criteriaLoop env seeker st1 cs = (st', None)" by simp
    from criterionStep_totals [OF Inr]
    have t1: "totalScore st1 =
           js_add (totalScore st) (js_mul (subScore seeker (candidate st) (ctype c)) (Num (weight c)))"
      and w1: "totalWeight st1 = totalWeight st + weight c"
      and s1: "subScore seeker (candidate st1) = subScore seeker (candidate st)"
      by auto
    from Cons.IH [OF loop] show ?thesis by (simp add: t1 w1 s1)
  qed
qed

lemma calculateMatch_score:
  assumes "calculateMatch env emb seeker a cs v = ((a', e'), Inr m)"
  shows "score m =
     (if weightTotal cs > 0
      then js_add (js_mul (js_div (weightedTotal seeker a cs) (Num (weightTotal cs))) (Num (7 / 10)))
                  (js_mul (calculateCosineSimilarity v (fst (getAlumniEmbedding env emb a'))) (Num (3 / 10)))
      else calculateCosineSimilarity v (fst (getAlumniEmbedding env emb a')))"
proof -
  let ?st0 = "\<lparr>candidate = a, totalScore = Num 0, totalWeight = 0, reasonsSoFar = [], matchTypesSoFar = []\<rparr>"
  obtain st r where loop: "criteriaLoop env seeker ?st0 cs = (st, r)"
    by (cases "criteriaLoop env seeker ?st0 cs")
  with assms have r: "r = None"
    by (cases r) (auto simp: calculateMatch_def Let_def split: prod.splits)
  from criteriaLoop_totals [OF loop [unfolded r]]
  have ts: "totalScore st = weightedTotal seeker a cs" and tw: "totalWeight st = weightTotal cs"
    by (simp_all add: weightedTotal_def weightTotal_def)
  from assms loop r have "a' = candidate st"
    by (auto simp: calculateMatch_def Let_def split: prod.splits)
  with assms loop r ts tw show ?thesis
    by (auto simp: calculateMatch_def Let_def split: prod.splits)
qed


lemma calculateMatchScore_no_criteria: "calculateMatchScore create student a [] = Num 0"
  by (simp add: calculateMatchScore_def js_min_def)

lemma first_mock_location: "a_location (hd mockAlumni) = ''San Francisco, CA''"
  by (simp add: mockAlumni_def)

text \<open>
  Claim C4, as stated, fails on the match route, whose \<open>calculateMatchScore\<close> has
  no semantic term and does not divide by the total weight. With an embedding service
  that returns the same unit vector for every text, so that every cosine is 1, the score
  for an empty criteria list is 0, not that cosine; and for the single criterion
  geographic proximity with weight 0.1, between equal locations, the score is 0.1, where
  the rule score 1 and the cosine 1 would blend to 1 * 0.7 + 1 * 0.3.
\<close>

theorem route_no_blend_counterexample:
  "embeddingCosine [1] [1] = Num 1 \<and>
   calculateMatchScore unitEmbeddings sanFranciscoStudent (hd mockAlumni) [] = Num 0 \<and>
   calculateMatchScore unitEmbeddings sanFranciscoStudent (hd mockAlumni)
     [\<lparr>ctype = geographic_proximity, weight = 1 / 10\<rparr>] = Num (1 / 10) \<and>
   route_calculateGeographicProximity (s_location sanFranciscoStudent) (a_location (hd mockAlumni)) = 1 \<and>
   (1 * (1 / 10) / (1 / 10)) * (7 / 10) + 1 * (3 / 10) \<noteq> (1 / 10 :: real)"
proof -
  have l: "s_location sanFranciscoStudent = ''San Francisco, CA''"
    by (simp add: sanFranciscoStudent_def)
  have "embeddingCosine [1] [1] = Num 1"
    by (simp add: embeddingCosine_def Let_def)
  moreover have "calculateMatchScore unitEmbeddings sanFranciscoStudent (hd mockAlumni)
     [\<lparr>ctype = geographic_proximity, weight = 1 / 10\<rparr>] = Num (1 / 10)"
    by (simp add: calculateMatchScore_def criterionScore_def l first_mock_location
        route_scenario_same_city js_min_def)
  ultimately show ?thesis
    by (simp add: calculateMatchScore_no_criteria l first_mock_location route_scenario_same_city)
qed

text \<open>
  Claim C4, amended. In \<open>AlumniMatchingEngine.calculateMatch\<close>, whenever it returns
  a match (which it does for every seeker whose department is not an inherited key of
  \<open>careerMap\<close>): if the criteria list is empty or the weights sum to zero or less,
  the final score is exactly the cosine similarity of the seeker's embedding and the
  candidate's; if the total weight is positive, the final score is the sum of sub-score
  times weight, divided by the total weight, times 0.7, plus the cosine times 0.3. The
  match route's \<open>calculateMatchScore\<close> is the minimum of 1 and the sum of sub-score
  times weight, which is 0 for an empty criteria list.
\<close>

theorem blend_rule:
  "(\<forall>a' e' m. calculateMatch env emb seeker a cs v = ((a', e'), Inr m) \<longrightarrow>
      (0 < weightTotal cs \<longrightarrow>
         score m =
           js_add (js_mul (js_div (weightedTotal seeker a cs) (Num (weightTotal cs))) (Num (7 / 10)))
                  (js_mul (calculateCosineSimilarity v (fst (getAlumniEmbedding env emb a'))) (Num (3 / 10)))) \<and>
      (cs = [] \<or> weightTotal cs \<le> 0 \<longrightarrow>
         score m = calculateCosineSimilarity v (fst (getAlumniEmbedding env emb a')))) \<and>
   (\<forall>ns. inferNeededSkills seeker = SkillArray ns \<longrightarrow>
      (\<exists>a' e' m. calculateMatch env emb seeker a cs v = ((a', e'), Inr m))) \<and>
   calculateMatchScore create student ra [] = Num 0 \<and>
   calculateMatchScore create student ra cs =
     js_min (foldl (\<lambda>total criterion.
                      js_add total (js_mul (criterionScore create student ra criterion)
                                           (Num (weight criterion))))
               (Num 0) cs)
            (Num 1)"
proof (intro conjI allI impI)
  fix a' e' m
  assume cm: "calculateMatch env emb seeker a cs v = ((a', e'), Inr m)"
  {
    assume "0 < weightTotal cs"
    then show "score m =
           js_add (js_mul (js_div (weightedTotal seeker a cs) (Num (weightTotal cs))) (Num (7 / 10)))
                  (js_mul (calculateCosineSimilarity v (fst (getAlumniEmbedding env emb a'))) (Num (3 / 10)))"
      using calculateMatch_score [OF cm] by simp
  }
  {
    assume "cs = [] \<or> weightTotal cs \<le> 0"
    then have "\<not> 0 < weightTotal cs" by (auto simp: weightTotal_def)
    then show "score m = calculateCosineSimilarity v (fst (getAlumniEmbedding env emb a'))"
      using calculateMatch_score [OF cm] by simp
  }
next
  fix ns
  assume "inferNeededSkills seeker = SkillArray ns"
  then show "\<exists>a' e' m. calculateMatch env emb seeker a cs v = ((a', e'), Inr m)"
    by (rule calculateMatch_array)
next
  show "calculateMatchScore create student ra [] = Num 0"
    by (rule calculateMatchScore_no_criteria)
  show "calculateMatchScore create student ra cs =
     js_min (foldl (\<lambda>total criterion.
                      js_add total (js_mul (criterionScore create student ra criterion)
                                           (Num (weight criterion))))
               (Num 0) cs)
            (Num 1)"
    by (simp add: calculateMatchScore_def)
qed

theorem blend_rule_witness:
  "(\<exists>a' e' m. calculateMatch offlineEnvironment Map.empty (Student exampleStudent) exampleAlumni []
        (getMockEmbedding ''fallback'') = ((a', e'), Inr m) \<and>
      score m = calculateCosineSimilarity (getMockEmbedding ''fallback'')
                  (fst (getAlumniEmbedding offlineEnvironment Map.empty a'))) \<and>
   (\<exists>a' e' m. calculateMatch offlineEnvironment Map.empty (Student exampleStudent) repeatedSkillAlumni
        [\<lparr>ctype = skill_complement, weight = 1\<rparr>] (getMockEmbedding ''fallback'') = ((a', e'), Inr m) \<and>
      score m =
        js_add (js_mul (js_div (weightedTotal (Student exampleStudent) repeatedSkillAlumni
                                  [\<lparr>ctype = skill_complement, weight = 1\<rparr>]) (Num 1)) (Num (7 / 10)))
               (js_mul (calculateCosineSimilarity (getMockEmbedding ''fallback'')
                          (fst (getAlumniEmbedding offlineEnvironment Map.empty a'))) (Num (3 / 10))))"
proof -
  have w: "0 < weightTotal [\<lparr>ctype = skill_complement, weight = 1\<rparr>]"
    "weightTotal [\<lparr>ctype = skill_complement, weight = 1\<rparr>] = 1"
    by (simp_all add: weightTotal_def)
  note r1 = blend_rule [of offlineEnvironment Map.empty "Student exampleStudent" exampleAlumni "[]"
        "getMockEmbedding ''fallback''" Map.empty exampleRouteStudent "hd mockAlumni"]
  note r2 = blend_rule [of offlineEnvironment Map.empty "Student exampleStudent" repeatedSkillAlumni
        "[\<lparr>ctype = skill_complement, weight = 1\<rparr>]"
        "getMockEmbedding ''fallback''" Map.empty exampleRouteStudent "hd mockAlumni"]
  from r1 exampleStudent_needs obtain a1 e1 m1 where
    c1: "calculateMatch offlineEnvironment Map.empty (Student exampleStudent) exampleAlumni []
        (getMockEmbedding ''fallback'') = ((a1, e1), Inr m1)"
    by blast
  from r1 c1 have s1: "score m1 = calculateCosineSimilarity (getMockEmbedding ''fallback'')
                  (fst (getAlumniEmbedding offlineEnvironment Map.empty a1))"
    by blast
  from r2 exampleStudent_needs obtain a2 e2 m2 where
    c2: "calculateMatch offlineEnvironment Map.empty (Student exampleStudent) repeatedSkillAlumni
        [\<lparr>ctype = skill_complement, weight = 1\<rparr>] (getMockEmbedding ''fallback'') = ((a2, e2), Inr m2)"
    by blast
  from r2 c2 w(1) have "score m2 =
        js_add (js_mul (js_div (weightedTotal (Student exampleStudent) repeatedSkillAlumni
                                  [\<lparr>ctype = skill_complement, weight = 1\<rparr>])
                               (Num (weightTotal [\<lparr>ctype = skill_complement, weight = 1\<rparr>]))) (Num (7 / 10)))
               (js_mul (calculateCosineSimilarity (getMockEmbedding ''fallback'')
                          (fst (getAlumniEmbedding offlineEnvironment Map.empty a2))) (Num (3 / 10)))"
    by blast
  then have s2: "score m2 =
        js_add (js_mul (js_div (weightedTotal (Student exampleStudent) repeatedSkillAlumni
                                  [\<lparr>ctype = skill_complement, weight = 1\<rparr>]) (Num 1)) (Num (7 / 10)))
               (js_mul (calculateCosineSimilarity (getMockEmbedding ''fallback'')
                          (fst (getAlumniEmbedding offlineEnvironment Map.empty a2))) (Num (3 / 10)))"
    by (simp only: w(2))
  from c1 s1 c2 s2 show ?thesis by blast
qed

end
